theory Spec2Isabelle
  imports Main "HOL-Library.Multiset" "HOL-Library.Sublist"
begin

section \<open>Strings\<close>

text \<open>
  JavaScript strings are modelled as \<^typ>\<open>string\<close>. A string is truthy when it is not
  empty. The character classes below cover ASCII: \<open>\s\<close> is the six ASCII white-space
  characters, and case conversion changes the letters a-z and A-Z only.
\<close>

definition isSpace :: "char \<Rightarrow> bool" where
  "isSpace c = (c = CHR '' '' \<or> c = CHR 0x09 \<or> c = CHR 0x0A \<or> c = CHR 0x0B
     \<or> c = CHR 0x0C \<or> c = CHR 0x0D)"

definition trim :: "string \<Rightarrow> string" where
  "trim s = rev (dropWhile isSpace (rev (dropWhile isSpace s)))"

definition toUpperCase_char :: "char \<Rightarrow> char" where
  "toUpperCase_char c =
     (if 97 \<le> (of_char c :: nat) \<and> (of_char c :: nat) \<le> 122
      then char_of ((of_char c :: nat) - 32) else c)"

definition toLowerCase_char :: "char \<Rightarrow> char" where
  "toLowerCase_char c =
     (if 65 \<le> (of_char c :: nat) \<and> (of_char c :: nat) \<le> 90
      then char_of ((of_char c :: nat) + 32) else c)"

definition toUpperCase :: "string \<Rightarrow> string" where
  "toUpperCase s = map toUpperCase_char s"

definition toLowerCase :: "string \<Rightarrow> string" where
  "toLowerCase s = map toLowerCase_char s"

text \<open>\<open>s.split(sep)\<close> for a one-character separator: the empty string gives one empty piece.\<close>

fun split :: "char \<Rightarrow> string \<Rightarrow> string list" where
  "split sep [] = [[]]"
| "split sep (c # cs) =
     (if c = sep then [] # split sep cs
      else (case split sep cs of
              [] \<Rightarrow> [[c]]
            | p # ps \<Rightarrow> (c # p) # ps))"

fun join :: "string \<Rightarrow> string list \<Rightarrow> string" where
  "join sep [] = []"
| "join sep [p] = p"
| "join sep (p # q # ps) = p @ sep @ join sep (q # ps)"

text \<open>\<open>fuzzy\<close> of util/string: remove all white space and underscores, then upper-case.\<close>

definition fuzzy :: "string \<Rightarrow> string" where
  "fuzzy s = toUpperCase (filter (\<lambda>c. \<not> isSpace c \<and> c \<noteq> CHR ''_'') s)"

text \<open>\<open>title\<close> of util/string: title case, word by word.\<close>

definition title_word :: "string \<Rightarrow> string" where
  "title_word w = (case w of [] \<Rightarrow> [] | c # cs \<Rightarrow> toUpperCase_char c # cs)"

definition util_title :: "string \<Rightarrow> string" where
  "util_title s = join '' '' (map title_word (split CHR '' '' (toLowerCase s)))"

text \<open>\<open>String(n)\<close> for a natural number: its decimal digits.\<close>

fun String_number :: "nat \<Rightarrow> string" where
  "String_number n =
     (if n < 10 then [char_of (48 + n)]
      else String_number (n div 10) @ [char_of (48 + n mod 10)])"

declare String_number.simps [simp del]

text \<open>\<open>s.includes(t)\<close>: \<open>t\<close> occurs in \<open>s\<close> as a contiguous piece.\<close>

fun String_includes :: "string \<Rightarrow> string \<Rightarrow> bool" where
  "String_includes [] t = (t = [])"
| "String_includes (c # cs) t = (prefix t (c # cs) \<or> String_includes cs t)"

section \<open>Data model\<close>

text \<open>
  The raw issue record of \<open>2_pull/github/issue.ts\<close>. Numbers that identify things (issue
  and project numbers) are natural numbers, and \<open>0\<close> is the falsy one. Dates are
  milliseconds since the epoch. A JavaScript \<open>Map\<close> is an association list in insertion
  order, read with \<^const>\<open>map_of\<close>. The types \<open>Comment\<close>, \<open>ProjectField\<close> and
  \<open>IssueFieldValue\<close> are declared in modules that are not part of the sources at hand:
  a comment is represented by its text, a project field by the two attributes the code
  reads (\<open>kind\<close>, \<open>options\<close>) and an opaque value, an issue field by an opaque value.
\<close>

datatype Comment = Comment string

datatype IssueFieldValue = IssueFieldValue string

record ProjectField =
  kind :: string
  options :: "string list option"
  fieldValue :: string

record Repository =
  name :: string
  owner :: string
  nameWithOwner :: string

record Parent =
  title :: string
  url :: string
  number :: nat

record Project =
  organization :: string
  number :: nat
  fields' :: "(string \<times> ProjectField) list"

record Issue =
  title :: string
  body :: string
  url :: string
  number :: nat
  isOpen :: bool
  createdAt :: int
  updatedAt :: int
  type :: string
  repository :: Repository
  assignees :: "string list"
  labels :: "string list"
  comments :: "Comment list option"
  parent :: "Parent option"
  project :: "Project option"
  issueFields :: "(string \<times> IssueFieldValue) list option"
  isSubissue :: "bool option"

record SourceOfTruth =
  title :: string
  url :: string
  groupKey :: "string option"

text \<open>
  \<open>IssueList\<close> (an Issue Collection) and \<open>IssueWrapper\<close> (an Issue Entity) refer to each
  other: a collection holds entities, an entity may own a collection of sub-issues and one
  of related issues. \<open>commentList\<close> is the entity's cached comment-list view: the comments
  it was built from, or \<open>None\<close> while the cache is empty.
\<close>

datatype 'w IssueList = IssueList
  (sourceOfTruth: SourceOfTruth)
  (issues: "'w list")
  (organization: "string option")
  (projectNumber: "nat option")
  (commentsFetched: bool)
  (projectFieldsFetched: bool)

datatype IssueWrapper = IssueWrapper
  (issue: Issue)
  (commentList: "Comment list option")
  (subissues: "IssueWrapper IssueList option")
  (relatedIssues: "IssueWrapper IssueList option")

datatype StrategiesBlob = OneStrategy string | ManyStrategies "string list"

text \<open>The identity of an issue for the tracker: organization, repository, issue number.\<close>

datatype GetIssueParameters = GetIssueParameters string string nat

datatype error =
    GroupKeyWithoutGroupBy
  | InvalidRenderOptions "string list"
  | FieldAndFields
  | InvalidUpdates int
  | InvalidFetchParameters "string list"
  | InvalidComments
  | InvalidTimeframe string
  | AlreadyAssociated nat nat
  | NoCommonOrganizationAndProject
  | NonexistentIssue GetIssueParameters
  | InvalidIssueUrl string
  | MissingIssueNumber string
  | InvalidGitHubUrl string
  | UnsupportedHostname string
  | InvalidURL string
  | RemoteFailure string

section \<open>Render options\<close>

text \<open>
  The validated options of \<open>3_transform/render-objects/issue.ts\<close>. \<open>updates\<close> is a count
  (a number that is not negative; \<open>0\<close> is the falsy one). \<open>subissues\<close> and \<open>relatedIssues\<close>
  may be undefined.
\<close>

record IssueRenderOptions =
  header :: bool
  body :: bool
  updates :: nat
  author :: bool
  createdAt :: bool
  updatedAt :: bool
  fields' :: "string list"
  subissues :: "bool option"
  relatedIssues :: "bool option"
  skipIfEmpty :: bool

record RenderedIssue =
  markdown :: string
  sources :: "string list"

text \<open>
  The values of an unvalidated option object (\<open>unknown\<close> in the source), and the object
  itself: its own keys in insertion order, each with its value.
\<close>

datatype jsval =
    JUndefined
  | JNull
  | JBool bool
  | JNumber int
  | JNaN
  | JString string
  | JArray "jsval list"

type_synonym DirtyRenderOptions = "(string \<times> jsval) list"

section \<open>Collaborators\<close>

text \<open>
  What the code calls in modules that are not part of the sources at hand is a parameter:
  the comment list (\<open>comment-list.ts\<close>: \<open>hasUpdate\<close>, \<open>latestUpdate\<close>, \<open>latestUpdates\<close>, and of
  an update its text \<open>update\<close> and \<open>emojiStatus\<close>), the configuration (\<open>EMOJI_OVERRIDE\<close>,
  \<open>isTrueString\<close>), the field tables (\<open>mapFieldsToString\<close>, \<open>slugifyFieldName\<close>), and the two
  string comparisons (\<open>emojiCompare\<close>, which may give no verdict, and \<open>localeCompare\<close>),
  the renderer of one update (\<open>renderComment\<close>), \<open>isTruthy\<close> of the configuration, and the
  built-in conversions \<open>Number\<close> (no result for \<open>NaN\<close>), \<open>String\<close> and \<open>Date.toISOString\<close>.
  A comment list is built from the entity and a list of comments, so its operations take
  the raw issue and the comments.
\<close>

record deps =
  hasUpdate :: "Issue \<Rightarrow> Comment list \<Rightarrow> bool"
  latestUpdate :: "Issue \<Rightarrow> Comment list \<Rightarrow> Comment option"
  latestUpdates :: "Issue \<Rightarrow> Comment list \<Rightarrow> nat \<Rightarrow> StrategiesBlob option \<Rightarrow> Comment list"
  update :: "Comment \<Rightarrow> string"
  emojiStatus :: "Comment \<Rightarrow> string list \<Rightarrow> string option"
  EMOJI_OVERRIDE :: "string option"
  isTrueString :: "string \<Rightarrow> bool"
  mapProjectFieldsToString :: "(string \<times> ProjectField) list \<Rightarrow> (string \<times> string) list"
  mapIssueFieldsToString :: "(string \<times> IssueFieldValue) list \<Rightarrow> (string \<times> string) list"
  slugifyFieldName :: "string \<Rightarrow> string"
  emojiCompare :: "string \<Rightarrow> string \<Rightarrow> int option"
  localeCompare :: "string \<Rightarrow> string \<Rightarrow> int"
  renderComment :: "Comment \<Rightarrow> IssueRenderOptions \<Rightarrow> nat \<Rightarrow> RenderedIssue option"
  isTruthy :: "jsval \<Rightarrow> bool"
  js_Number :: "jsval \<Rightarrow> int option"
  js_String :: "jsval \<Rightarrow> string"
  toISOString :: "int \<Rightarrow> string"

section \<open>Issue Entity: properties and field resolution\<close>

definition new_IssueWrapper :: "Issue \<Rightarrow> IssueWrapper" where
  "new_IssueWrapper i = IssueWrapper i None None None"

definition IssueWrapper_title :: "IssueWrapper \<Rightarrow> string" where
  "IssueWrapper_title w = trim (Issue.title (issue w))"

definition IssueWrapper_body :: "IssueWrapper \<Rightarrow> string" where
  "IssueWrapper_body w = trim (Issue.body (issue w))"

definition IssueWrapper_url :: "IssueWrapper \<Rightarrow> string" where
  "IssueWrapper_url w = Issue.url (issue w)"

definition IssueWrapper_number :: "IssueWrapper \<Rightarrow> nat" where
  "IssueWrapper_number w = Issue.number (issue w)"

definition IssueWrapper_header :: "IssueWrapper \<Rightarrow> string" where
  "IssueWrapper_header w = ''['' @ IssueWrapper_title w @ '']('' @ IssueWrapper_url w @ '')''"

definition IssueWrapper_isSubissue :: "IssueWrapper \<Rightarrow> bool" where
  "IssueWrapper_isSubissue w = (case isSubissue (issue w) of Some b \<Rightarrow> b | None \<Rightarrow> False)"

definition IssueWrapper_type :: "IssueWrapper \<Rightarrow> string" where
  "IssueWrapper_type w = (if IssueWrapper_isSubissue w then ''Subissue'' else type (issue w))"

definition IssueWrapper_repository :: "IssueWrapper \<Rightarrow> string" where
  "IssueWrapper_repository w = name (repository (issue w))"

definition IssueWrapper_organization :: "IssueWrapper \<Rightarrow> string" where
  "IssueWrapper_organization w = owner (repository (issue w))"

definition IssueWrapper_repoNameWithOwner :: "IssueWrapper \<Rightarrow> string" where
  "IssueWrapper_repoNameWithOwner w = nameWithOwner (repository (issue w))"

definition IssueWrapper_projectNumber :: "IssueWrapper \<Rightarrow> nat option" where
  "IssueWrapper_projectNumber w = map_option Project.number (project (issue w))"

text \<open>
  The \<open>comments\<close> getter: the cached view when there is one, and otherwise a view built
  from the raw comments (none counts as the empty list). The getter also stores the view
  it builds in the cache; that write does not change what the getter returns, and the
  readers below (field resolution, rendering) only read.
\<close>

definition IssueWrapper_comments :: "IssueWrapper \<Rightarrow> Comment list" where
  "IssueWrapper_comments w =
     (case commentList w of
        Some cs \<Rightarrow> cs
      | None \<Rightarrow> (case comments (issue w) of Some cs \<Rightarrow> cs | None \<Rightarrow> []))"

definition IssueWrapper_projectFields :: "deps \<Rightarrow> IssueWrapper \<Rightarrow> (string \<times> string) list" where
  "IssueWrapper_projectFields d w =
     (case project (issue w) of
        None \<Rightarrow> []
      | Some p \<Rightarrow> mapProjectFieldsToString d (Project.fields' p))"

definition IssueWrapper_issueFields :: "deps \<Rightarrow> IssueWrapper \<Rightarrow> (string \<times> string) list" where
  "IssueWrapper_issueFields d w =
     (case issueFields (issue w) of
        None \<Rightarrow> []
      | Some fs \<Rightarrow> mapIssueFieldsToString d fs)"

text \<open>\<open>a || b\<close> on optional strings: the first truthy one, and otherwise the second.\<close>

definition or_string :: "string option \<Rightarrow> string option \<Rightarrow> string option" where
  "or_string a b = (case a of Some s \<Rightarrow> (if s \<noteq> [] then Some s else b) | None \<Rightarrow> b)"

definition or_empty :: "string option \<Rightarrow> string" where
  "or_empty a = (case a of Some s \<Rightarrow> s | None \<Rightarrow> [])"

text \<open>
  \<open>field(fieldName)\<close>: the built-in aliases first, compared after \<^const>\<open>fuzzy\<close>, then the
  issue fields, then the project fields. (Reading \<open>body\<close> through the getter also hands the
  rendered body to the content memory, a collaborator that returns nothing.)
\<close>

definition field :: "deps \<Rightarrow> IssueWrapper \<Rightarrow> string \<Rightarrow> string" where
  "field d w fieldName =
     (let f = fuzzy fieldName in
      if f = fuzzy ''title'' then IssueWrapper_title w
      else if f = fuzzy ''url'' then IssueWrapper_url w
      else if f = fuzzy ''number'' then String_number (IssueWrapper_number w)
      else if f = fuzzy ''body'' then IssueWrapper_body w
      else if f = fuzzy ''type'' then IssueWrapper_type w
      else if f = fuzzy ''repo'' \<or> f = fuzzy ''repository'' then IssueWrapper_repository w
      else if f = fuzzy ''org'' \<or> f = fuzzy ''organization'' \<or> f = fuzzy ''owner''
        then IssueWrapper_organization w
      else if f = fuzzy ''full_name'' \<or> f = fuzzy ''name_with_owner''
          \<or> f = fuzzy ''repo_name_with_owner''
        then IssueWrapper_repoNameWithOwner w
      else if f = fuzzy ''parent'' \<or> f = fuzzy ''parent_issue'' \<or> f = fuzzy ''parent_title''
        then or_empty (map_option Parent.title (parent (issue w)))
      else if f = fuzzy ''parent_url''
        then or_empty (map_option Parent.url (parent (issue w)))
      else
        (let slug = slugifyFieldName d fieldName in
         or_empty (or_string (map_of (IssueWrapper_issueFields d w) slug)
                             (map_of (IssueWrapper_projectFields d w) slug))))"

text \<open>
  \<open>status(fieldName)\<close>. With an emoji override configured and a latest update at hand, the
  update's emoji decides: for a single-select project field the first option that includes
  the emoji, for any other field the emoji itself. Everything else falls through to
  \<^const>\<open>field\<close>, and an empty value reads \<open>No Status\<close>.
\<close>

definition status_fallback :: "deps \<Rightarrow> IssueWrapper \<Rightarrow> string \<Rightarrow> string" where
  "status_fallback d w fieldName =
     (let v = field d w fieldName in if v = [] then ''No Status'' else v)"

definition status :: "deps \<Rightarrow> IssueWrapper \<Rightarrow> string \<Rightarrow> string" where
  "status d w fieldName =
     (case (EMOJI_OVERRIDE d, latestUpdate d (issue w) (IssueWrapper_comments w)) of
        (Some emojiOverride, Some upd) \<Rightarrow>
          (if emojiOverride = [] then status_fallback d w fieldName
           else
             (let emojiSections =
                    (if isTrueString d emojiOverride then []
                     else map trim (split CHR '','' emojiOverride))
              in case emojiStatus d upd emojiSections of
                   None \<Rightarrow> status_fallback d w fieldName
                 | Some emoji \<Rightarrow>
                     (if emoji = [] then status_fallback d w fieldName
                      else
                        (case (case project (issue w) of
                                 None \<Rightarrow> None
                               | Some p \<Rightarrow> map_of (Project.fields' p) fieldName) of
                           None \<Rightarrow> emoji
                         | Some fld \<Rightarrow>
                             (if kind fld = ''SingleSelect'' then
                                (case find (\<lambda>option. String_includes option emoji)
                                        (case options fld of None \<Rightarrow> [] | Some os \<Rightarrow> os) of
                                   Some option \<Rightarrow> option
                                 | None \<Rightarrow> status_fallback d w fieldName)
                              else emoji)))))
      | _ \<Rightarrow> status_fallback d w fieldName)"

section \<open>Issue Collection\<close>

text \<open>
  The constructor wraps each raw issue; a new collection has no organization and no
  project number, and both fetch-state flags start \<open>False\<close>.
\<close>

definition new_IssueList :: "Issue list \<Rightarrow> SourceOfTruth \<Rightarrow> IssueWrapper IssueList" where
  "new_IssueList is sot = IssueList sot (map new_IssueWrapper is) None None False False"

definition IssueList_null :: "IssueWrapper IssueList" where
  "IssueList_null =
     new_IssueList [] \<lparr>SourceOfTruth.title = ''No Issues'', url = [], groupKey = None\<rparr>"

primrec set_issues :: "'w list \<Rightarrow> 'w IssueList \<Rightarrow> 'w IssueList" where
  "set_issues xs (IssueList s _ og pn cf pf) = IssueList s xs og pn cf pf"

primrec set_sourceOfTruth :: "SourceOfTruth \<Rightarrow> 'w IssueList \<Rightarrow> 'w IssueList" where
  "set_sourceOfTruth s (IssueList _ xs og pn cf pf) = IssueList s xs og pn cf pf"

primrec set_organization :: "string option \<Rightarrow> 'w IssueList \<Rightarrow> 'w IssueList" where
  "set_organization og (IssueList s xs _ pn cf pf) = IssueList s xs og pn cf pf"

primrec set_projectNumber :: "nat option \<Rightarrow> 'w IssueList \<Rightarrow> 'w IssueList" where
  "set_projectNumber pn (IssueList s xs og _ cf pf) = IssueList s xs og pn cf pf"

primrec set_commentsFetched :: "bool \<Rightarrow> 'w IssueList \<Rightarrow> 'w IssueList" where
  "set_commentsFetched cf (IssueList s xs og pn _ pf) = IssueList s xs og pn cf pf"

primrec set_projectFieldsFetched :: "bool \<Rightarrow> 'w IssueList \<Rightarrow> 'w IssueList" where
  "set_projectFieldsFetched pf (IssueList s xs og pn cf _) = IssueList s xs og pn cf pf"

definition IssueList_filter ::
  "(IssueWrapper \<Rightarrow> bool) \<Rightarrow> IssueWrapper IssueList \<Rightarrow> IssueWrapper list" where
  "IssueList_filter predicate l = filter predicate (issues l)"

definition IssueList_title :: "IssueWrapper IssueList \<Rightarrow> string" where
  "IssueList_title l = SourceOfTruth.title (sourceOfTruth l)"

text \<open>\<open>copy()\<close>: a new collection over a copy of the source of truth, then the same entities.\<close>

definition copy :: "IssueWrapper IssueList \<Rightarrow> IssueWrapper IssueList" where
  "copy l = set_issues (issues l) (new_IssueList [] (sourceOfTruth l))"

text \<open>The \<open>groupKey\<close> getter throws when the source of truth has no (or an empty) group key.\<close>

definition IssueList_groupKey :: "IssueWrapper IssueList \<Rightarrow> error + string" where
  "IssueList_groupKey l =
     (case groupKey (sourceOfTruth l) of
        None \<Rightarrow> Inl GroupKeyWithoutGroupBy
      | Some k \<Rightarrow> (if k = [] then Inl GroupKeyWithoutGroupBy else Inr k))"

text \<open>
  \<open>Array.prototype.sort\<close> with a comparator is stable; it is modelled by insertion from the
  right, an element going before the first one it does not compare greater than.
\<close>

fun insort_cmp :: "('a \<Rightarrow> 'a \<Rightarrow> int) \<Rightarrow> 'a \<Rightarrow> 'a list \<Rightarrow> 'a list" where
  "insort_cmp c x [] = [x]"
| "insort_cmp c x (y # ys) = (if c x y \<le> 0 then x # y # ys else y # insort_cmp c x ys)"

definition sort_cmp :: "('a \<Rightarrow> 'a \<Rightarrow> int) \<Rightarrow> 'a list \<Rightarrow> 'a list" where
  "sort_cmp c xs = foldr (insort_cmp c) xs []"

text \<open>
  \<open>groupBy(fieldName)\<close>. The groups are kept in a \<open>Map\<close> by the entity's status: a new key
  opens a group that shares the collection's title and url, and the entity is pushed on
  its key's group. The entries are then sorted by key.
\<close>

definition groupBy_newGroup ::
  "IssueWrapper IssueList \<Rightarrow> string \<Rightarrow> string \<Rightarrow> IssueWrapper IssueList" where
  "groupBy_newGroup l fieldName key =
     new_IssueList []
       \<lparr>SourceOfTruth.title = SourceOfTruth.title (sourceOfTruth l),
        url = SourceOfTruth.url (sourceOfTruth l),
        groupKey = Some (if key \<noteq> [] then key else ''No '' @ util_title fieldName)\<rparr>"

fun groupBy_push ::
  "string \<Rightarrow> IssueWrapper \<Rightarrow> (string \<times> IssueWrapper IssueList) list
     \<Rightarrow> (string \<times> IssueWrapper IssueList) list" where
  "groupBy_push key w [] = []"
| "groupBy_push key w ((k, g) # groups) =
     (if k = key then (k, set_issues (issues g @ [w]) g) # groups
      else (k, g) # groupBy_push key w groups)"

definition groupBy_step ::
  "deps \<Rightarrow> IssueWrapper IssueList \<Rightarrow> string \<Rightarrow> IssueWrapper
     \<Rightarrow> (string \<times> IssueWrapper IssueList) list \<Rightarrow> (string \<times> IssueWrapper IssueList) list" where
  "groupBy_step d l fieldName w groups =
     (let key = status d w fieldName;
          groups' = (if key \<in> fst ` set groups then groups
                     else groups @ [(key, groupBy_newGroup l fieldName key)])
      in groupBy_push key w groups')"

fun groupBy_loop ::
  "deps \<Rightarrow> IssueWrapper IssueList \<Rightarrow> string \<Rightarrow> IssueWrapper list
     \<Rightarrow> (string \<times> IssueWrapper IssueList) list \<Rightarrow> (string \<times> IssueWrapper IssueList) list" where
  "groupBy_loop d l fieldName [] groups = groups"
| "groupBy_loop d l fieldName (w # ws) groups =
     groupBy_loop d l fieldName ws (groupBy_step d l fieldName w groups)"

definition groupBy_compare :: "deps \<Rightarrow> string \<Rightarrow> string \<Rightarrow> int" where
  "groupBy_compare d a b = (case emojiCompare d a b of Some n \<Rightarrow> n | None \<Rightarrow> localeCompare d a b)"

definition groupBy :: "deps \<Rightarrow> string \<Rightarrow> IssueWrapper IssueList \<Rightarrow> IssueWrapper IssueList list" where
  "groupBy d fieldName l =
     map snd
       (sort_cmp (\<lambda>a b. groupBy_compare d (fst a) (fst b))
          (groupBy_loop d l fieldName (issues l) []))"

text \<open>
  \<open>blame(strategiesBlob)\<close>: a copy that keeps the entities with no latest update under
  the given strategies, its title marked as the stale view.
\<close>

definition blame ::
  "deps \<Rightarrow> StrategiesBlob option \<Rightarrow> IssueWrapper IssueList \<Rightarrow> IssueWrapper IssueList" where
  "blame d strategiesBlob l =
     (let blameList = copy l;
          blameList = set_issues
            (IssueList_filter
               (\<lambda>w. latestUpdates d (issue w) (IssueWrapper_comments w) 1 strategiesBlob = [])
               blameList)
            blameList
      in set_sourceOfTruth
           ((sourceOfTruth blameList)
              \<lparr>SourceOfTruth.title :=
                 SourceOfTruth.title (sourceOfTruth blameList) @ '' - Stale Updates''\<rparr>)
           blameList)"

definition IssueList_hasUpdates :: "deps \<Rightarrow> IssueWrapper IssueList \<Rightarrow> bool" where
  "IssueList_hasUpdates d l =
     list_ex (\<lambda>w. hasUpdate d (issue w) (IssueWrapper_comments w)) (issues l)"

section \<open>Validation of render options\<close>

text \<open>JavaScript truthiness of a value, and the read of a property (absent reads undefined).\<close>

fun truthy :: "jsval \<Rightarrow> bool" where
  "truthy JUndefined = False"
| "truthy JNull = False"
| "truthy (JBool b) = b"
| "truthy (JNumber n) = (n \<noteq> 0)"
| "truthy JNaN = False"
| "truthy (JString t) = (t \<noteq> [])"
| "truthy (JArray vs) = True"

definition property :: "DirtyRenderOptions \<Rightarrow> string \<Rightarrow> jsval" where
  "property opts key = (case map_of opts key of None \<Rightarrow> JUndefined | Some v \<Rightarrow> v)"

text \<open>The set \<open>validKeys\<close> of \<open>util/config\<close> for render options, as the source lists it.\<close>

definition validKeys :: "string list" where
  "validKeys =
     [''header'', ''body'', ''updates'', ''author'', ''createdAt'', ''updatedAt'',
      ''field'', ''fields'', ''subissues'', ''skipIfEmpty'']"

definition validate_updates :: "deps \<Rightarrow> jsval \<Rightarrow> error + nat" where
  "validate_updates d v =
     (if v = JUndefined then Inr 1
      else (case js_Number d v of
              None \<Rightarrow> Inr (if isTruthy d v then 1 else 0)
            | Some n \<Rightarrow> (if n < 0 then Inl (InvalidUpdates n) else Inr (nat n))))"

definition validate_fields :: "deps \<Rightarrow> DirtyRenderOptions \<Rightarrow> string list" where
  "validate_fields d opts =
     (if truthy (property opts ''field'') then [js_String d (property opts ''field'')]
      else if truthy (property opts ''fields'') then
        (case property opts ''fields'' of
           JArray vs \<Rightarrow> map (js_String d) vs
         | v \<Rightarrow> [js_String d v])
      else [])"

definition validateRenderOptions :: "deps \<Rightarrow> DirtyRenderOptions \<Rightarrow> error + IssueRenderOptions" where
  "validateRenderOptions d opts =
     (let invalidKeys = filter (\<lambda>key. key \<notin> set validKeys) (map fst opts) in
      if invalidKeys \<noteq> [] then Inl (InvalidRenderOptions invalidKeys)
      else if truthy (property opts ''field'') \<and> truthy (property opts ''fields'')
        then Inl FieldAndFields
      else
        (case validate_updates d (property opts ''updates'') of
           Inl e \<Rightarrow> Inl e
         | Inr n \<Rightarrow>
             Inr \<lparr>header =
                    (if property opts ''header'' \<noteq> JUndefined
                     then isTruthy d (property opts ''header'') else True),
                  body =
                    (if property opts ''body'' \<noteq> JUndefined
                     then isTruthy d (property opts ''body'') else False),
                  updates = n,
                  author =
                    (if truthy (property opts ''author'')
                     then isTruthy d (property opts ''author'') else True),
                  createdAt =
                    (if truthy (property opts ''createdAt'')
                     then isTruthy d (property opts ''createdAt'') else False),
                  updatedAt =
                    (if truthy (property opts ''updatedAt'')
                     then isTruthy d (property opts ''updatedAt'') else False),
                  fields' = validate_fields d opts,
                  subissues =
                    (if property opts ''subissues'' \<noteq> JUndefined
                     then Some (isTruthy d (property opts ''subissues'')) else None),
                  relatedIssues =
                    (if property opts ''relatedIssues'' \<noteq> JUndefined
                     then Some (isTruthy d (property opts ''relatedIssues'')) else None),
                  skipIfEmpty =
                    (if property opts ''skipIfEmpty'' \<noteq> JUndefined
                     then isTruthy d (property opts ''skipIfEmpty'') else True)\<rparr>))"

section \<open>Rendering pipeline\<close>

text \<open>
  \<open>renderIssue\<close> writes to the option object it is given: an undefined \<open>subissues\<close> or
  \<open>relatedIssues\<close> is set to whether the entity has that collection. The object is then
  handed on to the nested calls. The model returns the option object next to the fragment.
\<close>

definition resolve_defaults :: "IssueWrapper \<Rightarrow> IssueRenderOptions \<Rightarrow> IssueRenderOptions" where
  "resolve_defaults w opts =
     (let opts =
            (if IssueRenderOptions.subissues opts = None
             then opts\<lparr>IssueRenderOptions.subissues :=
                            Some (IssueWrapper.subissues w \<noteq> None)\<rparr>
             else opts)
      in if IssueRenderOptions.relatedIssues opts = None
         then opts\<lparr>IssueRenderOptions.relatedIssues :=
                        Some (IssueWrapper.relatedIssues w \<noteq> None)\<rparr>
         else opts)"

definition render_header :: "IssueWrapper \<Rightarrow> IssueRenderOptions \<Rightarrow> nat \<Rightarrow> string" where
  "render_header w opts headerLevel =
     (if header opts
      then replicate headerLevel CHR ''#'' @ '' '' @ IssueWrapper_header w @ ''\<newline>\<newline>''
      else [])"

text \<open>The condition under which nothing of the entity is worth rendering.\<close>

definition nothing_to_render :: "deps \<Rightarrow> IssueWrapper \<Rightarrow> IssueRenderOptions \<Rightarrow> bool" where
  "nothing_to_render d w opts =
     ((updates opts = 0 \<or> \<not> hasUpdate d (issue w) (IssueWrapper_comments w)) \<and>
      (\<not> IssueRenderOptions.body opts \<or> IssueWrapper_body w = []) \<and>
      (IssueRenderOptions.subissues opts \<noteq> Some True \<or>
       (case IssueWrapper.subissues w of
          None \<Rightarrow> True
        | Some l \<Rightarrow> \<not> IssueList_hasUpdates d l)))"

definition placeholder :: string where
  "placeholder = ''This Issue has no updates, or body content to render.\<newline>\<newline>''"

definition render_field :: "deps \<Rightarrow> IssueWrapper \<Rightarrow> string \<Rightarrow> string" where
  "render_field d w fieldName =
     (let fieldValue = field d w fieldName in
      if fieldValue \<noteq> [] then ''**'' @ fieldName @ '':** '' @ fieldValue @ ''\<newline>'' else [])"

text \<open>The dates, the named fields and the body, appended to the markdown so far.\<close>

definition render_details ::
  "deps \<Rightarrow> IssueWrapper \<Rightarrow> IssueRenderOptions \<Rightarrow> string \<Rightarrow> string" where
  "render_details d w opts md =
     (let md =
            (if IssueRenderOptions.createdAt opts
             then md @ ''Issue Opened: '' @ toISOString d (Issue.createdAt (issue w))
             else md);
          md =
            (if IssueRenderOptions.updatedAt opts
             then md @ ''Issue Edited: '' @ toISOString d (Issue.updatedAt (issue w))
             else md);
          md =
            (if fields' opts \<noteq> []
             then md @ concat (map (render_field d w) (fields' opts)) @ ''\<newline>''
             else md)
      in if IssueRenderOptions.body opts
         then md @ IssueWrapper_body w @ ''\<newline>\<newline>''
         else md)"

text \<open>The loop over the latest updates: a rendered update adds its markdown and its sources.\<close>

fun render_updates ::
  "deps \<Rightarrow> IssueRenderOptions \<Rightarrow> nat \<Rightarrow> Comment list \<Rightarrow> string \<times> string list
     \<Rightarrow> string \<times> string list" where
  "render_updates d opts headerLevel [] acc = acc"
| "render_updates d opts headerLevel (u # us) acc =
     render_updates d opts headerLevel us
       (case renderComment d u opts (headerLevel + 1) of
          None \<Rightarrow> acc
        | Some renderedUpdate \<Rightarrow>
            (fst acc @ markdown renderedUpdate @ ''\<newline>\<newline>'',
             snd acc @ sources renderedUpdate))"

text \<open>
  \<open>renderIssue\<close>, and the loop over a collection's entities that it runs for the sub-issues
  and for the related issues (\<open>renderIssue_each\<close>): each entity is rendered one header level
  down, and a rendered entity adds its markdown and its sources.
\<close>

lemma size_issues_subissues:
  "IssueWrapper.subissues w = Some l \<Longrightarrow> size_list size (issues l) < size w"
  by (cases w; cases l) simp

lemma size_issues_relatedIssues:
  "IssueWrapper.relatedIssues w = Some l \<Longrightarrow> size_list size (issues l) < size w"
  by (cases w; cases l) simp

function (sequential) renderIssue ::
  "deps \<Rightarrow> IssueWrapper \<Rightarrow> IssueRenderOptions \<Rightarrow> nat
     \<Rightarrow> RenderedIssue option \<times> IssueRenderOptions"
and renderIssue_each ::
  "deps \<Rightarrow> IssueWrapper list \<Rightarrow> IssueRenderOptions \<Rightarrow> nat \<Rightarrow> string \<times> string list
     \<Rightarrow> (string \<times> string list) \<times> IssueRenderOptions" where
  "renderIssue d w opts0 headerLevel =
     (let opts = resolve_defaults w opts0;
          md = render_header w opts headerLevel;
          srcs = [IssueWrapper_url w]
      in if nothing_to_render d w opts then
           (if skipIfEmpty opts \<or> \<not> header opts then (None, opts)
            else (Some \<lparr>markdown = md @ placeholder, sources = srcs\<rparr>, opts))
         else
           (let acc = (render_details d w opts md, srcs);
                acc =
                  (if updates opts \<noteq> 0
                   then render_updates d opts headerLevel
                          (latestUpdates d (issue w) (IssueWrapper_comments w)
                             (updates opts) None)
                          acc
                   else acc);
                (acc, opts) =
                  (case IssueWrapper.subissues w of
                     None \<Rightarrow> (acc, opts)
                   | Some l \<Rightarrow>
                       (if IssueRenderOptions.subissues opts = Some True then
                          (case renderIssue_each d (issues l) opts (headerLevel + 1) acc of
                             (acc, opts) \<Rightarrow>
                               ((fst acc @ ''---\<newline>\<newline>'', snd acc), opts))
                        else (acc, opts)));
                (acc, opts) =
                  (case IssueWrapper.relatedIssues w of
                     None \<Rightarrow> (acc, opts)
                   | Some l \<Rightarrow>
                       (if IssueRenderOptions.relatedIssues opts = Some True then
                          (case renderIssue_each d (issues l) opts (headerLevel + 1) acc of
                             (acc, opts) \<Rightarrow>
                               ((fst acc @ ''---\<newline>\<newline>'', snd acc), opts))
                        else (acc, opts)))
            in (Some \<lparr>markdown = fst acc, sources = snd acc\<rparr>, opts)))"
| "renderIssue_each d [] opts headerLevel acc = (acc, opts)"
| "renderIssue_each d (w # ws) opts headerLevel acc =
     (case renderIssue d w opts headerLevel of
        (None, opts) \<Rightarrow> renderIssue_each d ws opts headerLevel acc
      | (Some rendered, opts) \<Rightarrow>
          renderIssue_each d ws opts headerLevel
            (fst acc @ markdown rendered @ ''\<newline>\<newline>'', snd acc @ sources rendered))"
  by pat_completeness auto

termination
  by (relation "measure (\<lambda>x. case x of
            Inl (d, w, opts, n) \<Rightarrow> 2 * size w
          | Inr (d, ws, opts, n, acc) \<Rightarrow> 2 * size_list size ws + 1)")
     (auto dest: size_issues_subissues size_issues_relatedIssues)

declare renderIssue.simps [simp del]

text \<open>
  What the source list of a fragment is to hold besides the entity's own url: the sources
  of every rendered update, of every rendered sub-issue and of every rendered related
  issue that the fragment includes, in that order.
\<close>

definition rendered_sources :: "RenderedIssue option list \<Rightarrow> string list" where
  "rendered_sources rs = concat (map sources (List.map_filter id rs))"

definition nested_sources ::
  "deps \<Rightarrow> IssueWrapper \<Rightarrow> IssueRenderOptions \<Rightarrow> nat \<Rightarrow> string list" where
  "nested_sources d w opts headerLevel =
     (if updates opts \<noteq> 0
      then rendered_sources
             (map (\<lambda>u. renderComment d u opts (headerLevel + 1))
                (latestUpdates d (issue w) (IssueWrapper_comments w) (updates opts) None))
      else []) @
     (case IssueWrapper.subissues w of
        None \<Rightarrow> []
      | Some l \<Rightarrow>
          (if IssueRenderOptions.subissues opts = Some True
           then rendered_sources
                  (map (\<lambda>s. fst (renderIssue d s opts (headerLevel + 1))) (issues l))
           else [])) @
     (case IssueWrapper.relatedIssues w of
        None \<Rightarrow> []
      | Some l \<Rightarrow>
          (if IssueRenderOptions.relatedIssues opts = Some True
           then rendered_sources
                  (map (\<lambda>s. fst (renderIssue d s opts (headerLevel + 1))) (issues l))
           else []))"

text \<open>
  Sub-issues are requested when the option says so, and by default when the entity has a
  collection of sub-issues. An option object is resolved when both defaults are filled in.
\<close>

definition subissues_requested :: "IssueWrapper \<Rightarrow> IssueRenderOptions \<Rightarrow> bool" where
  "subissues_requested w opts =
     (case IssueRenderOptions.subissues opts of
        None \<Rightarrow> IssueWrapper.subissues w \<noteq> None
      | Some b \<Rightarrow> b)"

definition resolved :: "IssueRenderOptions \<Rightarrow> bool" where
  "resolved opts = (IssueRenderOptions.subissues opts \<noteq> None \<and>
     IssueRenderOptions.relatedIssues opts \<noteq> None)"

section \<open>Fetching: parameters, tracker, outcomes\<close>

text \<open>
  The validated fetch parameters of \<open>util/config/fetch.ts\<close>. \<open>comments\<close> is a count that
  validation keeps from being negative.
\<close>

record IssueFetchParameters =
  comments :: int
  projectFields :: bool
  issueFields :: bool
  subissues :: bool
  followLinks :: bool
  filter' :: "IssueWrapper \<Rightarrow> bool"

text \<open>
  The remote calls of \<open>./graphql\<close>, each of which may fail, with the rest of the
  environment that fetching reads: the clock, the configured timeframe of the update
  detection, and the built-in \<open>URL\<close> parser (host name and path name of a string, or nothing
  when the constructor throws). The answer of a remote call is a function of the request.
\<close>

record env =
  getIssue :: "GetIssueParameters \<Rightarrow> error + Issue"
  listSubissuesForIssue :: "GetIssueParameters \<Rightarrow> error + (Issue list \<times> string \<times> string)"
  listCommentsForIssue :: "GetIssueParameters \<Rightarrow> int \<Rightarrow> error + Comment list"
  listProjectFieldsForIssue ::
    "GetIssueParameters \<Rightarrow> nat \<Rightarrow> error + (string \<times> ProjectField) list"
  listCommentsForListOfIssues ::
    "GetIssueParameters list \<Rightarrow> int \<Rightarrow> error + (GetIssueParameters \<times> Comment list) list"
  listProjectFieldsForProject ::
    "string \<Rightarrow> nat \<Rightarrow> error + (GetIssueParameters \<times> (string \<times> ProjectField) list) list"
  now :: int
  timeframe :: string
  parseURL :: "string \<Rightarrow> (string \<times> string) option"

text \<open>What a run leaves behind for an observer: the remote calls made and the warnings logged.\<close>

datatype event =
    Call_getIssue GetIssueParameters
  | Call_listSubissuesForIssue GetIssueParameters
  | Call_listCommentsForIssue GetIssueParameters int
  | Call_listProjectFieldsForIssue GetIssueParameters nat
  | Call_listCommentsForListOfIssues "GetIssueParameters list" int
  | Call_listProjectFieldsForProject string nat
  | Warning_Subissues GetIssueParameters error
  | Warning_Url string error

text \<open>
  A call returns, throws, or does not return within the fuel it is given (fuel bounds the
  depth of nested entity fetches). A call that writes to its object is a function from
  the object to its outcome, the object as the call leaves it (also when it throws), and
  the events of the call. Entities are values here: a write through one collection is not
  seen through another collection that holds the same entity.
\<close>

datatype 'a outcome = Returned 'a | Thrown error | OutOfFuel

type_synonym 's mutator = "'s \<Rightarrow> unit outcome \<times> 's \<times> event list"

definition skip :: "'s mutator" where
  "skip s = (Returned (), s, [])"

text \<open>Run \<open>m\<close>, and when it returns run \<open>f\<close> on the object it leaves.\<close>

definition and_then :: "unit outcome \<times> 's \<times> event list \<Rightarrow> 's mutator \<Rightarrow> unit outcome \<times> 's \<times> event list" where
  "and_then r f =
     (case r of
        (Returned u, s, evs) \<Rightarrow> (case f s of (r', s', evs') \<Rightarrow> (r', s', evs @ evs'))
      | (Thrown e, s, evs) \<Rightarrow> (Thrown e, s, evs)
      | (OutOfFuel, s, evs) \<Rightarrow> (OutOfFuel, s, evs))"

definition truthy_number :: "nat option \<Rightarrow> bool" where
  "truthy_number n = (case n of None \<Rightarrow> False | Some k \<Rightarrow> k \<noteq> 0)"

definition truthy_string :: "string option \<Rightarrow> bool" where
  "truthy_string t = (case t of None \<Rightarrow> False | Some u \<Rightarrow> u \<noteq> [])"

primrec set_issue :: "Issue \<Rightarrow> IssueWrapper \<Rightarrow> IssueWrapper" where
  "set_issue i (IssueWrapper _ c s r) = IssueWrapper i c s r"

primrec set_commentList :: "Comment list option \<Rightarrow> IssueWrapper \<Rightarrow> IssueWrapper" where
  "set_commentList c (IssueWrapper i _ s r) = IssueWrapper i c s r"

primrec set_subissues :: "IssueWrapper IssueList option \<Rightarrow> IssueWrapper \<Rightarrow> IssueWrapper" where
  "set_subissues s (IssueWrapper i c _ r) = IssueWrapper i c s r"

primrec set_relatedIssues :: "IssueWrapper IssueList option \<Rightarrow> IssueWrapper \<Rightarrow> IssueWrapper" where
  "set_relatedIssues r (IssueWrapper i c s _) = IssueWrapper i c s r"

definition IssueWrapper_identity :: "IssueWrapper \<Rightarrow> GetIssueParameters" where
  "IssueWrapper_identity w =
     GetIssueParameters (IssueWrapper_organization w) (IssueWrapper_repository w)
       (IssueWrapper_number w)"

text \<open>The setters \<open>comments\<close> (which empties the cached view) and \<open>project\<close>.\<close>

definition IssueWrapper_set_comments :: "Comment list \<Rightarrow> IssueWrapper \<Rightarrow> IssueWrapper" where
  "IssueWrapper_set_comments cs w =
     set_commentList None (set_issue ((issue w)\<lparr>Issue.comments := Some cs\<rparr>) w)"

definition IssueWrapper_set_project :: "Project \<Rightarrow> IssueWrapper \<Rightarrow> IssueWrapper" where
  "IssueWrapper_set_project p w = set_issue ((issue w)\<lparr>project := Some p\<rparr>) w"

section \<open>Validation of fetch parameters\<close>

text \<open>
  \<open>validateFetchParameters\<close> on an object that has the six keys of the fetch parameters
  (so that no key is invalid): a negative count is refused, the flags go through
  \<open>isTruthy\<close>, the filter is kept.
\<close>

definition validateFetchParameters :: "deps \<Rightarrow> IssueFetchParameters \<Rightarrow> error + IssueFetchParameters" where
  "validateFetchParameters d params =
     (if comments params < 0 then Inl InvalidComments
      else Inr \<lparr>comments = comments params,
                projectFields = isTruthy d (JBool (projectFields params)),
                issueFields = isTruthy d (JBool (IssueFetchParameters.issueFields params)),
                subissues = isTruthy d (JBool (IssueFetchParameters.subissues params)),
                followLinks = isTruthy d (JBool (followLinks params)),
                filter' = filter' params\<rparr>)"

section \<open>Issue URLs\<close>

text \<open>\<open>validateUrl\<close> of \<open>util/github-url.ts\<close>: parse, with the protocol added on a second try.\<close>

definition validateUrl :: "env \<Rightarrow> string \<Rightarrow> error + string \<times> string" where
  "validateUrl e u =
     (case (case parseURL e u of
              Some urlParts \<Rightarrow> Some urlParts
            | None \<Rightarrow> parseURL e (''https://'' @ u)) of
        None \<Rightarrow> Inl (InvalidURL u)
      | Some (hostname, pathname) \<Rightarrow>
          (if hostname \<noteq> ''github.com'' then Inl (UnsupportedHostname hostname)
           else Inr (hostname, pathname)))"

definition isDigit :: "char \<Rightarrow> bool" where
  "isDigit c = (48 \<le> (of_char c :: nat) \<and> (of_char c :: nat) \<le> 57)"

definition parseInt :: "string \<Rightarrow> nat" where
  "parseInt ds = foldl (\<lambda>n c. 10 * n + ((of_char c :: nat) - 48)) 0 ds"

datatype IssueMatch = IssueMatch string string "nat option"

text \<open>
  \<open>matchIssueUrl\<close>: the path name is \<open>/owner/repo\<close>, \<open>/owner/repo/issues\<close> or
  \<open>/owner/repo/issues/digits\<close>, the pieces between the slashes not empty.
\<close>

definition matchIssueUrl :: "env \<Rightarrow> string \<Rightarrow> error + IssueMatch option" where
  "matchIssueUrl e u =
     (case validateUrl e u of
        Inl err \<Rightarrow> Inl err
      | Inr (hostname, pathname) \<Rightarrow>
          (case split CHR ''/'' pathname of
             [[], own, repo] \<Rightarrow>
               (if own \<noteq> [] \<and> repo \<noteq> [] then Inr (Some (IssueMatch own repo None))
                else Inr None)
           | [[], own, repo, iss] \<Rightarrow>
               (if own \<noteq> [] \<and> repo \<noteq> [] \<and> iss = ''issues''
                then Inr (Some (IssueMatch own repo None))
                else Inr None)
           | [[], own, repo, iss, ds] \<Rightarrow>
               (if own \<noteq> [] \<and> repo \<noteq> [] \<and> iss = ''issues'' \<and> ds \<noteq> [] \<and> list_all isDigit ds
                then Inr (Some (IssueMatch own repo (Some (parseInt ds))))
                else Inr None)
           | _ \<Rightarrow> Inr None))"

text \<open>
  \<open>scrapeUrls(blob, ["issue"])\<close>. The matches of the pattern: \<open>github.com/\<close> and then one or
  more characters that are not white space and none of \<open>)\<close>, \<open>'\<close>, \<open>"\<close>, \<open><\<close>, \<open>>\<close>; the search
  goes on behind a match. A match that is an issue url is kept, once.
\<close>

definition url_char :: "char \<Rightarrow> bool" where
  "url_char c =
     (\<not> isSpace c \<and> c \<noteq> CHR '')'' \<and> c \<noteq> CHR 0x27 \<and> c \<noteq> CHR 0x22 \<and> c \<noteq> CHR ''<''
      \<and> c \<noteq> CHR ''>'')"

function scrape_matches :: "string \<Rightarrow> string list" where
  "scrape_matches s =
     (if s = [] then []
      else if prefix ''github.com/'' s \<and> takeWhile url_char (drop 11 s) \<noteq> []
        then (''github.com/'' @ takeWhile url_char (drop 11 s))
               # scrape_matches (dropWhile url_char (drop 11 s))
      else scrape_matches (tl s))"
  by pat_completeness auto
termination
  by (relation "measure length")
     (auto simp: prefix_def intro: le_less_trans [OF length_dropWhile_le])

declare scrape_matches.simps [simp del]

fun scrape_issue_urls :: "env \<Rightarrow> string list \<Rightarrow> error + string list" where
  "scrape_issue_urls e [] = Inr []"
| "scrape_issue_urls e (m # ms) =
     (case matchIssueUrl e m of
        Inl err \<Rightarrow> Inl err
      | Inr None \<Rightarrow> scrape_issue_urls e ms
      | Inr (Some found) \<Rightarrow>
          (case scrape_issue_urls e ms of
             Inl err \<Rightarrow> Inl err
           | Inr us \<Rightarrow> Inr (m # us)))"

definition scrapeUrls :: "env \<Rightarrow> string \<Rightarrow> error + string list" where
  "scrapeUrls e blob =
     (case scrape_issue_urls e (scrape_matches blob) of
        Inl err \<Rightarrow> Inl err
      | Inr us \<Rightarrow> Inr (rev (remdups (rev us))))"

section \<open>Issue Entity: enrichment\<close>

text \<open>One day in milliseconds (\<open>ONE_DAY\<close> of \<open>util/date\<close>).\<close>

definition ONE_DAY :: int where
  "ONE_DAY = 24 * 60 * 60 * 1000"

definition wasUpdatedSince :: "env \<Rightarrow> IssueWrapper \<Rightarrow> int \<Rightarrow> bool" where
  "wasUpdatedSince e w daysAgo = (now e - Issue.updatedAt (issue w) < daysAgo * ONE_DAY)"

definition wasUpdatedWithinTimeframe :: "env \<Rightarrow> IssueWrapper \<Rightarrow> string \<Rightarrow> error + bool" where
  "wasUpdatedWithinTimeframe e w tf =
     (if tf = ''all-time'' then Inr True
      else if tf = ''today'' then Inr (wasUpdatedSince e w 1)
      else if tf = ''last-week'' then Inr (wasUpdatedSince e w 7)
      else if tf = ''last-month'' then Inr (wasUpdatedSince e w 31)
      else if tf = ''last-year'' then Inr (wasUpdatedSince e w 365)
      else Inl (InvalidTimeframe tf))"

text \<open>\<open>fetchComments\<close> of an entity: nothing when comments are there, else one remote call.\<close>

definition IssueWrapper_fetchComments :: "env \<Rightarrow> int \<Rightarrow> IssueWrapper mutator" where
  "IssueWrapper_fetchComments e numComments w =
     (case Issue.comments (issue w) of
        Some cs \<Rightarrow> (Returned (), w, [])
      | None \<Rightarrow>
          (case listCommentsForIssue e (IssueWrapper_identity w) numComments of
             Inl err \<Rightarrow>
               (Thrown err, w, [Call_listCommentsForIssue (IssueWrapper_identity w) numComments])
           | Inr cs \<Rightarrow>
               (Returned (), set_issue ((issue w)\<lparr>Issue.comments := Some cs\<rparr>) w,
                [Call_listCommentsForIssue (IssueWrapper_identity w) numComments])))"

text \<open>
  \<open>fetchProjectFields\<close> of an entity: with project data at hand, nothing for the same
  project number and an error for another one; without, one remote call.
\<close>

definition IssueWrapper_fetchProjectFields :: "env \<Rightarrow> nat \<Rightarrow> IssueWrapper mutator" where
  "IssueWrapper_fetchProjectFields e projectNumber' w =
     (case project (issue w) of
        Some p \<Rightarrow>
          (if Project.number p = projectNumber' then (Returned (), w, [])
           else (Thrown (AlreadyAssociated (Project.number p) projectNumber'), w, []))
      | None \<Rightarrow>
          (case listProjectFieldsForIssue e (IssueWrapper_identity w) projectNumber' of
             Inl err \<Rightarrow>
               (Thrown err, w,
                [Call_listProjectFieldsForIssue (IssueWrapper_identity w) projectNumber'])
           | Inr fs \<Rightarrow>
               (Returned (),
                IssueWrapper_set_project
                  \<lparr>Project.organization = IssueWrapper_organization w,
                   number = projectNumber', fields' = fs\<rparr> w,
                [Call_listProjectFieldsForIssue (IssueWrapper_identity w) projectNumber'])))"

section \<open>Issue Collection: enrichment\<close>

text \<open>Write to the first element that satisfies a condition; nothing when there is none.\<close>

fun assign_first :: "('a \<Rightarrow> bool) \<Rightarrow> ('a \<Rightarrow> 'a) \<Rightarrow> 'a list \<Rightarrow> 'a list option" where
  "assign_first P f [] = None"
| "assign_first P f (x # xs) =
     (if P x then Some (f x # xs) else map_option ((#) x) (assign_first P f xs))"

text \<open>
  \<open>fetchProjectFields\<close> of a collection. The project number is taken over before the check
  for an organization and a project number; every entity gets empty project data first,
  and then the fields of the item that names it.
\<close>

fun assign_project_fields ::
  "string \<Rightarrow> nat \<Rightarrow> (GetIssueParameters \<times> (string \<times> ProjectField) list) list
     \<Rightarrow> IssueWrapper list \<Rightarrow> IssueWrapper list" where
  "assign_project_fields org pn [] ws = ws"
| "assign_project_fields org pn ((issueParams, fs) # items) ws =
     assign_project_fields org pn items
       (case assign_first (\<lambda>w. IssueWrapper_identity w = issueParams)
               (IssueWrapper_set_project
                  \<lparr>Project.organization = org, number = pn, fields' = fs\<rparr>) ws of
          None \<Rightarrow> ws
        | Some ws' \<Rightarrow> ws')"

definition IssueList_fetchProjectFields ::
  "env \<Rightarrow> nat option \<Rightarrow> IssueWrapper IssueList mutator" where
  "IssueList_fetchProjectFields e projectNumber' l =
     (if projectFieldsFetched l then (Returned (), l, [])
      else
        (let l = (if \<not> truthy_number (projectNumber l) \<and> truthy_number projectNumber'
                  then set_projectNumber projectNumber' l else l)
         in case (organization l, projectNumber l) of
              (Some org, Some pn) \<Rightarrow>
                (if org = [] \<or> pn = 0 then (Thrown NoCommonOrganizationAndProject, l, [])
                 else
                   (case listProjectFieldsForProject e org pn of
                      Inl err \<Rightarrow> (Thrown err, l, [Call_listProjectFieldsForProject org pn])
                    | Inr projectFieldItems \<Rightarrow>
                        (Returned (),
                         set_projectFieldsFetched True
                           (set_issues
                              (assign_project_fields org pn projectFieldItems
                                 (map (IssueWrapper_set_project
                                         \<lparr>Project.organization = org, number = pn,
                                          fields' = []\<rparr>)
                                    (issues l)))
                              l),
                         [Call_listProjectFieldsForProject org pn])))
            | _ \<Rightarrow> (Thrown NoCommonOrganizationAndProject, l, [])))"

text \<open>
  \<open>fetchComments\<close> of a collection: one batched remote call for the entities within the
  timeframe, and each answer written to the entity it names; an answer that names no entity
  of the collection is an error.
\<close>

fun within_timeframe :: "env \<Rightarrow> IssueWrapper list \<Rightarrow> error + IssueWrapper list" where
  "within_timeframe e [] = Inr []"
| "within_timeframe e (w # ws) =
     (case wasUpdatedWithinTimeframe e w (timeframe e) of
        Inl err \<Rightarrow> Inl err
      | Inr b \<Rightarrow>
          (case within_timeframe e ws of
             Inl err \<Rightarrow> Inl err
           | Inr ws' \<Rightarrow> Inr (if b then w # ws' else ws')))"

fun assign_comments ::
  "(GetIssueParameters \<times> Comment list) list \<Rightarrow> IssueWrapper list
     \<Rightarrow> unit outcome \<times> IssueWrapper list" where
  "assign_comments [] ws = (Returned (), ws)"
| "assign_comments ((issueParams, cs) # commentsMap) ws =
     (case assign_first (\<lambda>w. IssueWrapper_identity w = issueParams)
             (IssueWrapper_set_comments cs) ws of
        None \<Rightarrow> (Thrown (NonexistentIssue issueParams), ws)
      | Some ws' \<Rightarrow> assign_comments commentsMap ws')"

definition IssueList_fetchComments :: "env \<Rightarrow> int \<Rightarrow> IssueWrapper IssueList mutator" where
  "IssueList_fetchComments e numComments l =
     (if commentsFetched l then (Returned (), l, [])
      else
        (case within_timeframe e (issues l) of
           Inl err \<Rightarrow> (Thrown err, l, [])
         | Inr ws \<Rightarrow>
             (let request = map IssueWrapper_identity ws in
              case listCommentsForListOfIssues e request numComments of
                Inl err \<Rightarrow> (Thrown err, l, [Call_listCommentsForListOfIssues request numComments])
              | Inr commentsMap \<Rightarrow>
                  (case assign_comments commentsMap (issues l) of
                     (Returned u, ws') \<Rightarrow>
                       (Returned (), set_commentsFetched True (set_issues ws' l),
                        [Call_listCommentsForListOfIssues request numComments])
                   | (r, ws') \<Rightarrow>
                       (r, set_issues ws' l,
                        [Call_listCommentsForListOfIssues request numComments])))))"

text \<open>
  The loop of \<open>fetch\<close> over the entities of a collection. \<open>rec\<close> stands for the entity's
  \<open>fetch\<close>, here and below.
\<close>

fun fetch_each ::
  "(IssueFetchParameters \<Rightarrow> IssueWrapper mutator) \<Rightarrow> IssueFetchParameters
     \<Rightarrow> IssueWrapper list mutator" where
  "fetch_each rec params [] = (Returned (), [], [])"
| "fetch_each rec params (w # ws) =
     (case rec params w of
        (Returned u, w', evs) \<Rightarrow>
          (case fetch_each rec params ws of
             (r, ws', evs') \<Rightarrow> (r, w' # ws', evs @ evs'))
      | (r, w', evs) \<Rightarrow> (r, w' # ws, evs))"

text \<open>
  \<open>fetch\<close> of a collection: project fields and comments for the collection, then the
  filter, then the fetch of each entity that is left.
\<close>

definition IssueList_fetch ::
  "(IssueFetchParameters \<Rightarrow> IssueWrapper mutator) \<Rightarrow> env \<Rightarrow> IssueFetchParameters
     \<Rightarrow> IssueWrapper IssueList mutator" where
  "IssueList_fetch rec e params l =
     and_then
       (if projectFields params \<and> truthy_number (projectNumber l)
        then IssueList_fetchProjectFields e (projectNumber l) l else skip l)
       (\<lambda>l. and_then
          (if 0 < comments params then IssueList_fetchComments e (comments params) l else skip l)
          (\<lambda>l. case fetch_each rec params (IssueList_filter (filter' params) l) of
                  (r, ws, evs) \<Rightarrow> (r, set_issues ws l, evs)))"

text \<open>
  \<open>forSubissues\<close>: the remote call and the fetch of the new collection, under a \<open>try\<close>; a
  failure of either is logged as a warning and gives the null collection.
\<close>

definition forSubissues ::
  "(IssueFetchParameters \<Rightarrow> IssueWrapper mutator) \<Rightarrow> env \<Rightarrow> GetIssueParameters
     \<Rightarrow> IssueFetchParameters \<Rightarrow> IssueWrapper IssueList outcome \<times> event list" where
  "forSubissues rec e params fetchParams =
     (case listSubissuesForIssue e params of
        Inl err \<Rightarrow>
          (Returned IssueList_null,
           [Call_listSubissuesForIssue params, Warning_Subissues params err])
      | Inr (subs, title', url') \<Rightarrow>
          (case IssueList_fetch rec e fetchParams
                  (set_organization
                     (case params of GetIssueParameters org repo n \<Rightarrow> Some org)
                     (new_IssueList subs
                        \<lparr>SourceOfTruth.title = title', url = url', groupKey = None\<rparr>)) of
             (Returned u, l, evs) \<Rightarrow> (Returned l, Call_listSubissuesForIssue params # evs)
           | (Thrown err, l, evs) \<Rightarrow>
               (Returned IssueList_null,
                Call_listSubissuesForIssue params # evs @ [Warning_Subissues params err])
           | (OutOfFuel, l, evs) \<Rightarrow> (OutOfFuel, Call_listSubissuesForIssue params # evs)))"

text \<open>
  \<open>forIssue\<close> and \<open>forUrl\<close>: a new entity for what the tracker returns, fetched. \<open>forUrl\<close>
  throws on a string that is no issue url and on an issue url without a (truthy) number.
\<close>

definition forIssue ::
  "(IssueFetchParameters \<Rightarrow> IssueWrapper mutator) \<Rightarrow> env \<Rightarrow> GetIssueParameters
     \<Rightarrow> IssueFetchParameters \<Rightarrow> IssueWrapper outcome \<times> event list" where
  "forIssue rec e params fetchParams =
     (case getIssue e params of
        Inl err \<Rightarrow> (Thrown err, [Call_getIssue params])
      | Inr i \<Rightarrow>
          (case rec fetchParams (new_IssueWrapper i) of
             (Returned u, w, evs) \<Rightarrow> (Returned w, Call_getIssue params # evs)
           | (Thrown err, w, evs) \<Rightarrow> (Thrown err, Call_getIssue params # evs)
           | (OutOfFuel, w, evs) \<Rightarrow> (OutOfFuel, Call_getIssue params # evs)))"

definition forUrl ::
  "(IssueFetchParameters \<Rightarrow> IssueWrapper mutator) \<Rightarrow> env \<Rightarrow> string
     \<Rightarrow> IssueFetchParameters \<Rightarrow> IssueWrapper outcome \<times> event list" where
  "forUrl rec e u fetchParams =
     (case matchIssueUrl e u of
        Inl err \<Rightarrow> (Thrown err, [])
      | Inr None \<Rightarrow> (Thrown (InvalidIssueUrl u), [])
      | Inr (Some (IssueMatch own repo issueNumber)) \<Rightarrow>
          (case issueNumber of
             None \<Rightarrow> (Thrown (MissingIssueNumber u), [])
           | Some n \<Rightarrow>
               (if n = 0 then (Thrown (MissingIssueNumber u), [])
                else forIssue rec e (GetIssueParameters own repo n) fetchParams)))"

text \<open>
  \<open>forUrls\<close>. The loop resolves each url under a \<open>try\<close>: an entity is pushed, a failure is
  logged as a warning. The collection over the entities is then fetched.
\<close>

fun forUrls_loop ::
  "(IssueFetchParameters \<Rightarrow> IssueWrapper mutator) \<Rightarrow> env \<Rightarrow> IssueFetchParameters
     \<Rightarrow> string list \<Rightarrow> IssueWrapper list outcome \<times> event list" where
  "forUrls_loop rec e params [] = (Returned [], [])"
| "forUrls_loop rec e params (u # us) =
     (case forUrl rec e u params of
        (OutOfFuel, evs) \<Rightarrow> (OutOfFuel, evs)
      | (Thrown err, evs) \<Rightarrow>
          (case forUrls_loop rec e params us of
             (Returned ws, evs') \<Rightarrow> (Returned ws, evs @ Warning_Url u err # evs')
           | (r, evs') \<Rightarrow> (r, evs @ Warning_Url u err # evs'))
      | (Returned w, evs) \<Rightarrow>
          (case forUrls_loop rec e params us of
             (Returned ws, evs') \<Rightarrow> (Returned (w # ws), evs @ evs')
           | (r, evs') \<Rightarrow> (r, evs @ evs')))"

definition forUrls ::
  "(IssueFetchParameters \<Rightarrow> IssueWrapper mutator) \<Rightarrow> env \<Rightarrow> string list
     \<Rightarrow> IssueFetchParameters \<Rightarrow> IssueWrapper IssueList outcome \<times> event list" where
  "forUrls rec e us params =
     (case forUrls_loop rec e params us of
        (Returned ws, evs) \<Rightarrow>
          (case IssueList_fetch rec e params
                  (set_issues ws
                     (new_IssueList []
                        \<lparr>SourceOfTruth.title = ''Issues from URLs'', url = ''Multiple URLs'',
                         groupKey = None\<rparr>)) of
             (Returned u, l, evs') \<Rightarrow> (Returned l, evs @ evs')
           | (Thrown err, l, evs') \<Rightarrow> (Thrown err, evs @ evs')
           | (OutOfFuel, l, evs') \<Rightarrow> (OutOfFuel, evs @ evs'))
      | (Thrown err, evs) \<Rightarrow> (Thrown err, evs)
      | (OutOfFuel, evs) \<Rightarrow> (OutOfFuel, evs))"

section \<open>Issue Entity: sub-issues, links, fetch\<close>

text \<open>
  \<open>fetchSubissues\<close>: the collection of sub-issues is fetched with the caller's parameters
  and \<open>subissues\<close> set, gets the entity's project fields when the entity has a project
  number, and is attached.
\<close>

definition IssueWrapper_fetchSubissues ::
  "(IssueFetchParameters \<Rightarrow> IssueWrapper mutator) \<Rightarrow> env \<Rightarrow> deps \<Rightarrow> IssueFetchParameters
     \<Rightarrow> IssueWrapper mutator" where
  "IssueWrapper_fetchSubissues rec e d params w =
     (case validateFetchParameters d (params\<lparr>IssueFetchParameters.subissues := True\<rparr>) of
        Inl err \<Rightarrow> (Thrown err, w, [])
      | Inr fetchParams \<Rightarrow>
          (case forSubissues rec e (IssueWrapper_identity w) fetchParams of
             (Returned l, evs) \<Rightarrow>
               (case (if truthy_number (IssueWrapper_projectNumber w)
                      then IssueList_fetchProjectFields e (IssueWrapper_projectNumber w) l
                      else skip l) of
                  (Returned u, l', evs') \<Rightarrow> (Returned (), set_subissues (Some l') w, evs @ evs')
                | (r, l', evs') \<Rightarrow> (r, w, evs @ evs'))
           | (Thrown err, evs) \<Rightarrow> (Thrown err, w, evs)
           | (OutOfFuel, evs) \<Rightarrow> (OutOfFuel, w, evs)))"

text \<open>
  The parameters that \<open>followLinks\<close> hands to \<open>forUrls\<close> for the related issues: the
  caller's, with \<open>subissues\<close> off.
\<close>

definition followLinks_parameters :: "IssueFetchParameters \<Rightarrow> IssueFetchParameters" where
  "followLinks_parameters params = params\<lparr>IssueFetchParameters.subissues := False\<rparr>"

text \<open>
  \<open>followLinks\<close>: nothing when the related issues are there. Otherwise the comment-list
  view is read (and cached); the text of its latest update is searched for issue urls, and
  these are resolved into the collection of related issues (the null collection when
  there is no url). Without a latest update, or with an empty one, nothing is attached.
\<close>

definition IssueWrapper_followLinks ::
  "(IssueFetchParameters \<Rightarrow> IssueWrapper mutator) \<Rightarrow> env \<Rightarrow> deps \<Rightarrow> IssueFetchParameters
     \<Rightarrow> IssueWrapper mutator" where
  "IssueWrapper_followLinks rec e d params w =
     (case IssueWrapper.relatedIssues w of
        Some l \<Rightarrow> (Returned (), w, [])
      | None \<Rightarrow>
          (let w = set_commentList (Some (IssueWrapper_comments w)) w in
           case latestUpdate d (issue w) (IssueWrapper_comments w) of
             None \<Rightarrow> (Returned (), w, [])
           | Some upd \<Rightarrow>
               (if update d upd = [] then (Returned (), w, [])
                else
                  (case scrapeUrls e (update d upd) of
                     Inl err \<Rightarrow> (Thrown err, w, [])
                   | Inr issueUrls \<Rightarrow>
                       (if issueUrls = []
                        then (Returned (), set_relatedIssues (Some IssueList_null) w, [])
                        else
                          (case forUrls rec e issueUrls (followLinks_parameters params) of
                             (Returned l, evs) \<Rightarrow>
                               (Returned (), set_relatedIssues (Some l) w, evs)
                           | (Thrown err, evs) \<Rightarrow> (Thrown err, w, evs)
                           | (OutOfFuel, evs) \<Rightarrow> (OutOfFuel, w, evs)))))))"

text \<open>
  The body of the entity's \<open>fetch\<close>: comments (when there are none, a positive count is
  asked for and the entity is within the timeframe), project fields (for the entity's own
  project number), sub-issues, links.
\<close>

definition fetch_comments_step :: "env \<Rightarrow> IssueFetchParameters \<Rightarrow> IssueWrapper mutator" where
  "fetch_comments_step e params w =
     (if Issue.comments (issue w) = None \<and> 0 < comments params then
        (case wasUpdatedWithinTimeframe e w (timeframe e) of
           Inl err \<Rightarrow> (Thrown err, w, [])
         | Inr b \<Rightarrow> (if b then IssueWrapper_fetchComments e (comments params) w else skip w))
      else skip w)"

definition fetch_body ::
  "(IssueFetchParameters \<Rightarrow> IssueWrapper mutator) \<Rightarrow> env \<Rightarrow> deps \<Rightarrow> IssueFetchParameters
     \<Rightarrow> IssueWrapper mutator" where
  "fetch_body rec e d params w =
     and_then (fetch_comments_step e params w)
       (\<lambda>w. and_then
          (case IssueWrapper_projectNumber w of
             None \<Rightarrow> skip w
           | Some pn \<Rightarrow>
               (if projectFields params \<and> pn \<noteq> 0
                then IssueWrapper_fetchProjectFields e pn w else skip w))
          (\<lambda>w. and_then
             (if IssueFetchParameters.subissues params
              then IssueWrapper_fetchSubissues rec e d params w else skip w)
             (\<lambda>w. if followLinks params
                   then IssueWrapper_followLinks rec e d params w else skip w)))"

text \<open>
  The entity's \<open>fetch\<close>, with fuel for the depth of the entity fetches nested in it (through
  sub-issues and through related issues), and the constructors of a collection that run it.
\<close>

primrec IssueWrapper_fetch ::
  "nat \<Rightarrow> env \<Rightarrow> deps \<Rightarrow> IssueFetchParameters \<Rightarrow> IssueWrapper mutator" where
  "IssueWrapper_fetch 0 e d = (\<lambda>params w. (OutOfFuel, w, []))"
| "IssueWrapper_fetch (Suc n) e d = fetch_body (IssueWrapper_fetch n e d) e d"

definition IssueList_forUrls ::
  "nat \<Rightarrow> env \<Rightarrow> deps \<Rightarrow> string list \<Rightarrow> IssueFetchParameters
     \<Rightarrow> IssueWrapper IssueList outcome \<times> event list" where
  "IssueList_forUrls n e d us params = forUrls (IssueWrapper_fetch n e d) e us params"

text \<open>
  The entry points with fuel, and what the loop of \<open>forUrls\<close> is to produce: the entities
  of the urls that resolve, in the order of the urls, and a warning for each url that fails.
\<close>

definition IssueWrapper_forUrl ::
  "nat \<Rightarrow> env \<Rightarrow> deps \<Rightarrow> string \<Rightarrow> IssueFetchParameters \<Rightarrow> IssueWrapper outcome \<times> event list" where
  "IssueWrapper_forUrl n e d u params = forUrl (IssueWrapper_fetch n e d) e u params"

definition resolved_entities ::
  "nat \<Rightarrow> env \<Rightarrow> deps \<Rightarrow> string list \<Rightarrow> IssueFetchParameters \<Rightarrow> IssueWrapper list" where
  "resolved_entities n e d us params =
     concat (map (\<lambda>u. case fst (IssueWrapper_forUrl n e d u params) of
                         Returned w \<Rightarrow> [w] | Thrown err \<Rightarrow> [] | OutOfFuel \<Rightarrow> []) us)"

definition url_warnings ::
  "nat \<Rightarrow> env \<Rightarrow> deps \<Rightarrow> string list \<Rightarrow> IssueFetchParameters \<Rightarrow> event list" where
  "url_warnings n e d us params =
     concat (map (\<lambda>u. case fst (IssueWrapper_forUrl n e d u params) of
                         Returned w \<Rightarrow> [] | Thrown err \<Rightarrow> [Warning_Url u err] | OutOfFuel \<Rightarrow> []) us)"

definition IssueList_forUrls_loop ::
  "nat \<Rightarrow> env \<Rightarrow> deps \<Rightarrow> string list \<Rightarrow> IssueFetchParameters
     \<Rightarrow> IssueWrapper list outcome \<times> event list" where
  "IssueList_forUrls_loop n e d us params = forUrls_loop (IssueWrapper_fetch n e d) e params us"

text \<open>
  The stages of \<open>forUrls\<close> after its loop, over the entities of the urls that resolve.
  \<open>resolutions_end\<close>: the resolution of every url ends, with an entity or with an error.
  \<open>forUrls_collection\<close>: the collection titled \<open>Issues from URLs\<close> over the resolved
  entities. \<open>forUrls_commented\<close>: the comment fetch of that collection, which \<open>fetch\<close>
  runs when the parameters ask for comments (a new collection has no project number, so
  that \<open>fetch\<close> asks for no project fields). \<open>forUrls_passing\<close>: the entities that the
  filter of the parameters keeps, applied to the entities as the comment fetch leaves them.
  \<open>forUrls_refetched\<close>: the fetch of each of these.
\<close>

definition resolutions_end ::
  "nat \<Rightarrow> env \<Rightarrow> deps \<Rightarrow> string list \<Rightarrow> IssueFetchParameters \<Rightarrow> bool" where
  "resolutions_end n e d us params =
     (\<forall>u \<in> set us. fst (IssueWrapper_forUrl n e d u params) \<noteq> OutOfFuel)"

definition forUrls_collection ::
  "nat \<Rightarrow> env \<Rightarrow> deps \<Rightarrow> string list \<Rightarrow> IssueFetchParameters \<Rightarrow> IssueWrapper IssueList" where
  "forUrls_collection n e d us params =
     set_issues (resolved_entities n e d us params)
       (new_IssueList []
          \<lparr>SourceOfTruth.title = ''Issues from URLs'', url = ''Multiple URLs'', groupKey = None\<rparr>)"

definition forUrls_commented ::
  "nat \<Rightarrow> env \<Rightarrow> deps \<Rightarrow> string list \<Rightarrow> IssueFetchParameters
     \<Rightarrow> unit outcome \<times> IssueWrapper IssueList \<times> event list" where
  "forUrls_commented n e d us params =
     (if 0 < comments params
      then IssueList_fetchComments e (comments params) (forUrls_collection n e d us params)
      else skip (forUrls_collection n e d us params))"

definition forUrls_passing ::
  "nat \<Rightarrow> env \<Rightarrow> deps \<Rightarrow> string list \<Rightarrow> IssueFetchParameters \<Rightarrow> IssueWrapper list" where
  "forUrls_passing n e d us params =
     filter (filter' params) (issues (fst (snd (forUrls_commented n e d us params))))"

definition forUrls_refetched ::
  "nat \<Rightarrow> env \<Rightarrow> deps \<Rightarrow> string list \<Rightarrow> IssueFetchParameters
     \<Rightarrow> unit outcome \<times> IssueWrapper list \<times> event list" where
  "forUrls_refetched n e d us params =
     fetch_each (IssueWrapper_fetch n e d) params (forUrls_passing n e d us params)"

section \<open>Example inputs\<close>

text \<open>Concrete collaborators and entities, used to run the definitions on explicit inputs.\<close>

fun example_localeCompare :: "string \<Rightarrow> string \<Rightarrow> int" where
  "example_localeCompare [] [] = 0"
| "example_localeCompare [] (b # bs) = - 1"
| "example_localeCompare (a # as) [] = 1"
| "example_localeCompare (a # as) (b # bs) =
     (if (of_char a :: nat) < of_char b then - 1
      else if (of_char b :: nat) < of_char a then 1
      else example_localeCompare as bs)"

definition example_deps :: deps where
  "example_deps =
     \<lparr>hasUpdate = (\<lambda>i cs. cs \<noteq> []),
      latestUpdate = (\<lambda>i cs. if cs = [] then None else Some (last cs)),
      latestUpdates = (\<lambda>i cs n b. take n (rev cs)),
      update = (\<lambda>c. case c of Comment t \<Rightarrow> t),
      emojiStatus = (\<lambda>c sections. None),
      EMOJI_OVERRIDE = None,
      isTrueString = (\<lambda>s. s = ''true''),
      mapProjectFieldsToString = map (\<lambda>e. (fst e, fieldValue (snd e))),
      mapIssueFieldsToString = map (\<lambda>e. (fst e, case snd e of IssueFieldValue v \<Rightarrow> v)),
      slugifyFieldName = (\<lambda>s. s),
      emojiCompare = (\<lambda>a b. None),
      localeCompare = example_localeCompare,
      renderComment = (\<lambda>c opts level. case c of Comment t \<Rightarrow>
        (if t = [] then None
         else Some \<lparr>markdown = replicate level CHR ''#'' @ '' Update\<newline>\<newline>'' @ t,
                    sources = [t]\<rparr>)),
      isTruthy = (\<lambda>v. v = JBool True \<or> v = JString ''true''),
      js_Number = (\<lambda>v. case v of JNumber n \<Rightarrow> Some n | JBool b \<Rightarrow> Some (if b then 1 else 0)
                       | JNull \<Rightarrow> Some 0 | _ \<Rightarrow> None),
      js_String = (\<lambda>v. case v of JString t \<Rightarrow> t | _ \<Rightarrow> []),
      toISOString = (\<lambda>t. ''1970-01-01T00:00:00.000Z'')\<rparr>"

definition example_issue :: "nat \<Rightarrow> string \<Rightarrow> Issue" where
  "example_issue n ty =
     \<lparr>Issue.title = ''Issue '' @ String_number n, body = [],
      url = ''https://github.com/octo/repo/issues/'' @ String_number n,
      number = n, isOpen = True, Issue.createdAt = 0, Issue.updatedAt = 0, type = ty,
      repository = \<lparr>name = ''repo'', owner = ''octo'', nameWithOwner = ''octo/repo''\<rparr>,
      assignees = [], labels = [], Issue.comments = None, parent = None, project = None,
      issueFields = None, isSubissue = None\<rparr>"

definition example_list :: "IssueWrapper IssueList" where
  "example_list =
     new_IssueList [example_issue 1 ''Task'', example_issue 2 ''Bug'', example_issue 3 ''Task'']
       \<lparr>SourceOfTruth.title = ''Issues'', url = ''https://github.com/octo/repo'',
        groupKey = None\<rparr>"

text \<open>A collection whose two fetch-state flags are set, as a project collection's are.\<close>

definition example_fetched_list :: "IssueWrapper IssueList" where
  "example_fetched_list =
     set_projectFieldsFetched True (set_commentsFetched True example_list)"

text \<open>The options that validation gives for an empty option object.\<close>

definition example_options :: IssueRenderOptions where
  "example_options =
     \<lparr>header = True, body = False, updates = 1, author = True, createdAt = False,
      updatedAt = False, fields' = [], subissues = None, relatedIssues = None,
      skipIfEmpty = True\<rparr>"

text \<open>An entity with no body, no comments and no collections.\<close>

definition example_bare_entity :: IssueWrapper where
  "example_bare_entity = new_IssueWrapper (example_issue 1 ''Task'')"

text \<open>
  An entity with one update, a collection of two sub-issues (one with an update, one
  without) and a collection of one related issue.
\<close>

definition example_commented_entity :: "nat \<Rightarrow> string \<Rightarrow> IssueWrapper" where
  "example_commented_entity n text =
     new_IssueWrapper ((example_issue n ''Task'')\<lparr>Issue.comments := Some [Comment text]\<rparr>)"

definition example_parent_entity :: IssueWrapper where
  "example_parent_entity =
     IssueWrapper ((example_issue 1 ''Task'')\<lparr>Issue.comments := Some [Comment ''Parent update'']\<rparr>)
       None
       (Some (IssueList
          \<lparr>SourceOfTruth.title = ''Issue 1'', url = ''https://github.com/octo/repo/issues/1'',
           groupKey = None\<rparr>
          [example_commented_entity 2 ''Child update'', new_IssueWrapper (example_issue 3 ''Task'')]
          (Some ''octo'') None False False))
       (Some (IssueList
          \<lparr>SourceOfTruth.title = ''Issues from URLs'', url = ''Multiple URLs'', groupKey = None\<rparr>
          [example_commented_entity 4 ''Related update'']
          None None False False))"

text \<open>
  A tracker with the issues of \<open>octo/repo\<close>, no sub-issues, no comments and no fields; its
  \<open>URL\<close> parser reads \<open>https://host/path\<close>.
\<close>

definition example_parseURL :: "string \<Rightarrow> (string \<times> string) option" where
  "example_parseURL s =
     (if prefix ''https://'' s
      then Some (takeWhile (\<lambda>c. c \<noteq> CHR ''/'') (drop 8 s),
                 dropWhile (\<lambda>c. c \<noteq> CHR ''/'') (drop 8 s))
      else None)"

definition example_env :: env where
  "example_env =
     \<lparr>getIssue = (\<lambda>p. case p of GetIssueParameters org repo n \<Rightarrow>
          (if org = ''octo'' \<and> repo = ''repo'' then Inr (example_issue n ''Task'')
           else Inl (RemoteFailure ''Not Found''))),
      listSubissuesForIssue = (\<lambda>p. Inr ([], ''Sub-issues'', ''https://github.com/octo/repo'')),
      listCommentsForIssue = (\<lambda>p n. Inr []),
      listProjectFieldsForIssue = (\<lambda>p n. Inr []),
      listCommentsForListOfIssues = (\<lambda>ps n. Inr []),
      listProjectFieldsForProject = (\<lambda>org n. Inr []),
      now = 0,
      timeframe = ''all-time'',
      parseURL = example_parseURL\<rparr>"

definition example_fetch_parameters :: IssueFetchParameters where
  "example_fetch_parameters =
     \<lparr>comments = 0, projectFields = False, issueFields = False, subissues = False,
      followLinks = False, filter' = (\<lambda>w. True)\<rparr>"

definition example_urls :: "string list" where
  "example_urls =
     [''not-a-url'', ''https://github.com/octo/repo/issues/1'',
      ''https://github.com/octo/repo/issues/2'']"

text \<open>
  Parameters whose filter rejects issue 2; and parameters that ask for comments, with a
  tracker whose batched comment call fails.
\<close>

definition example_filtering_parameters :: IssueFetchParameters where
  "example_filtering_parameters =
     \<lparr>comments = 0, projectFields = False, issueFields = False, subissues = False,
      followLinks = False, filter' = (\<lambda>w. IssueWrapper_number w \<noteq> 2)\<rparr>"

definition example_comment_parameters :: IssueFetchParameters where
  "example_comment_parameters =
     \<lparr>comments = 20, projectFields = False, issueFields = False, subissues = False,
      followLinks = False, filter' = (\<lambda>w. True)\<rparr>"

definition example_batch_failing_env :: env where
  "example_batch_failing_env =
     example_env\<lparr>listCommentsForListOfIssues := (\<lambda>ps n. Inl (RemoteFailure ''Bad Gateway''))\<rparr>"


text \<open>
  A tracker in which the latest update of every issue links to issue 1, and parameters that
  ask for comments and link-following.
\<close>

definition example_linking_env :: env where
  "example_linking_env =
     example_env\<lparr>listCommentsForIssue :=
       (\<lambda>p n. Inr [Comment ''Blocked by github.com/octo/repo/issues/1''])\<rparr>"

definition example_linking_parameters :: IssueFetchParameters where
  "example_linking_parameters =
     \<lparr>comments = 20, projectFields = False, issueFields = False, subissues = False,
      followLinks = True, filter' = (\<lambda>w. True)\<rparr>"


definition example_linked_entity :: IssueWrapper where
  "example_linked_entity =
     set_issue ((example_issue 1 ''Task'')
        \<lparr>Issue.comments := Some [Comment ''Blocked by github.com/octo/repo/issues/1'']\<rparr>)
       (new_IssueWrapper (example_issue 1 ''Task''))"

text \<open>
  A tracker whose sub-issue listing fails, an entity that carries project data for
  project 1, and parameters that ask for sub-issues.
\<close>

definition example_failing_env :: env where
  "example_failing_env =
     example_env\<lparr>listSubissuesForIssue := (\<lambda>p. Inl (RemoteFailure ''Bad Gateway''))\<rparr>"

definition example_project_entity :: IssueWrapper where
  "example_project_entity =
     new_IssueWrapper ((example_issue 1 ''Task'')
       \<lparr>project := Some \<lparr>Project.organization = ''octo'', number = 1, fields' = []\<rparr>\<rparr>)"

definition example_subissue_parameters :: IssueFetchParameters where
  "example_subissue_parameters =
     \<lparr>comments = 0, projectFields = False, issueFields = False, subissues = True,
      followLinks = False, filter' = (\<lambda>w. True)\<rparr>"



section \<open>Grouping\<close>

lemma String_includes_nonempty: "String_includes s t \<Longrightarrow> t \<noteq> [] \<Longrightarrow> s \<noteq> []"
  by (cases s) auto

lemma status_fallback_nonempty: "status_fallback d w f \<noteq> []"
  by (simp add: status_fallback_def Let_def)

text \<open>A status is never the empty string.\<close>

lemma status_nonempty: "status d w f \<noteq> []"
  by (auto simp: status_def Let_def status_fallback_nonempty find_Some_iff
        dest: String_includes_nonempty
        split: option.splits prod.splits)

lemma mset_insort_cmp: "mset (insort_cmp c x xs) = add_mset x (mset xs)"
  by (induction xs) auto

lemma mset_sort_cmp: "mset (sort_cmp c xs) = mset xs"
  unfolding sort_cmp_def by (induction xs) (auto simp: mset_insort_cmp)

lemma set_sort_cmp: "set (sort_cmp c xs) = set xs"
  using mset_sort_cmp [of c xs] by (metis set_mset_mset)

lemma issues_set_issues [simp]: "issues (set_issues xs g) = xs"
  by (cases g) simp

lemma sourceOfTruth_set_issues [simp]: "sourceOfTruth (set_issues xs g) = sourceOfTruth g"
  by (cases g) simp

text \<open>The entities of all groups of the \<open>Map\<close>, as a multiset.\<close>

definition group_entities ::
  "(string \<times> IssueWrapper IssueList) list \<Rightarrow> IssueWrapper multiset" where
  "group_entities groups = (\<Sum>e\<in>#mset groups. mset (issues (snd e)))"

lemma group_entities_simps [simp]:
  "group_entities [] = {#}"
  "group_entities (e # groups) = mset (issues (snd e)) + group_entities groups"
  "group_entities (groups @ groups') = group_entities groups + group_entities groups'"
  by (simp_all add: group_entities_def)

lemma group_entities_push:
  "key \<in> fst ` set groups \<Longrightarrow>
   group_entities (groupBy_push key w groups) = add_mset w (group_entities groups)"
  by (induction groups) force+

lemma group_entities_step:
  "group_entities (groupBy_step d l f w groups) = add_mset w (group_entities groups)"
  by (simp add: groupBy_step_def Let_def group_entities_push groupBy_newGroup_def
        new_IssueList_def)

lemma group_entities_loop:
  "group_entities (groupBy_loop d l f ws groups) = mset ws + group_entities groups"
  by (induction ws arbitrary: groups) (simp_all add: group_entities_step)

lemma group_entities_concat:
  "mset (concat (map issues (map snd groups))) = group_entities groups"
  by (induction groups) auto

text \<open>
  The invariant of the loop of \<open>groupBy\<close>: an entry's group carries the entry's key as
  its group key, the key is not empty, and it is the status of every entity of the group.
\<close>

definition group_ok :: "deps \<Rightarrow> string \<Rightarrow> string \<times> IssueWrapper IssueList \<Rightarrow> bool" where
  "group_ok d f e =
     (groupKey (sourceOfTruth (snd e)) = Some (fst e) \<and> fst e \<noteq> [] \<and>
      (\<forall>w \<in> set (issues (snd e)). status d w f = fst e))"

lemma group_ok_push:
  "list_all (group_ok d f) groups \<Longrightarrow> status d w f = key \<Longrightarrow>
   list_all (group_ok d f) (groupBy_push key w groups)"
  by (induction groups) (auto simp: group_ok_def)

lemma group_ok_step:
  "list_all (group_ok d f) groups \<Longrightarrow> list_all (group_ok d f) (groupBy_step d l f w groups)"
  unfolding groupBy_step_def Let_def
  by (rule group_ok_push)
     (auto simp: group_ok_def groupBy_newGroup_def new_IssueList_def status_nonempty)

lemma group_ok_loop:
  "list_all (group_ok d f) groups \<Longrightarrow> list_all (group_ok d f) (groupBy_loop d l f ws groups)"
  by (induction ws arbitrary: groups) (simp_all add: group_ok_step)

lemma group_ok_groupBy:
  assumes "g \<in> set (groupBy d f l)"
  shows "\<exists>k. group_ok d f (k, g)"
proof -
  have ok: "list_all (group_ok d f) (groupBy_loop d l f (issues l) [])"
    by (rule group_ok_loop) simp
  from assms obtain k where "(k, g) \<in> set (groupBy_loop d l f (issues l) [])"
    by (auto simp: groupBy_def set_sort_cmp)
  with ok show ?thesis by (auto simp: list_all_iff)
qed

lemma example_groupBy:
  "map (\<lambda>g. (IssueList_groupKey g, map IssueWrapper_number (issues g)))
     (groupBy example_deps ''type'' example_list) =
   [(Inr ''Bug'', [2]), (Inr ''Task'', [1, 3])]"
  by code_simp

text \<open>
  C4. For every Issue Collection and every field name, the entities of all groups returned
  by \<open>groupBy\<close>, put together, are the same multiset of entities as the collection's, and
  every entity of a group has, as its status for the field, the group key of its group.
\<close>

theorem groupBy_partition:
  "mset (concat (map issues (groupBy d f l))) = mset (issues l) \<and>
   (\<forall>g \<in> set (groupBy d f l). \<forall>w \<in> set (issues g).
      IssueList_groupKey g = Inr (status d w f))"
proof
  have "mset (concat (map issues (groupBy d f l)))
      = group_entities (sort_cmp (\<lambda>a b. groupBy_compare d (fst a) (fst b))
          (groupBy_loop d l f (issues l) []))"
    unfolding groupBy_def by (rule group_entities_concat)
  also have "\<dots> = group_entities (groupBy_loop d l f (issues l) [])"
    by (simp add: group_entities_def mset_sort_cmp)
  finally show "mset (concat (map issues (groupBy d f l))) = mset (issues l)"
    by (simp add: group_entities_loop)
next
  show "\<forall>g \<in> set (groupBy d f l). \<forall>w \<in> set (issues g).
      IssueList_groupKey g = Inr (status d w f)"
  proof (intro ballI)
    fix g w assume g: "g \<in> set (groupBy d f l)" and w: "w \<in> set (issues g)"
    from group_ok_groupBy [OF g] obtain k where "group_ok d f (k, g)" ..
    with w show "IssueList_groupKey g = Inr (status d w f)"
      by (auto simp: group_ok_def IssueList_groupKey_def)
  qed
qed

theorem groupBy_partition_witness:
  "mset (concat (map issues (groupBy example_deps ''type'' example_list)))
     = mset (issues example_list) \<and>
   map (\<lambda>g. (IssueList_groupKey g, map IssueWrapper_number (issues g)))
     (groupBy example_deps ''type'' example_list) =
   [(Inr ''Bug'', [2]), (Inr ''Task'', [1, 3])]"
  using groupBy_partition [of example_deps "''type''" example_list] example_groupBy
  by simp

text \<open>
  C10. Reading \<open>groupKey\<close> on a collection whose source of truth carries no group key throws;
  on every collection produced by \<open>groupBy\<close> it returns the group key the collection carries.
\<close>

theorem groupKey_getter:
  "(groupKey (sourceOfTruth l) = None \<longrightarrow> IssueList_groupKey l = Inl GroupKeyWithoutGroupBy) \<and>
   (\<forall>g \<in> set (groupBy d f l').
      \<exists>k. groupKey (sourceOfTruth g) = Some k \<and> IssueList_groupKey g = Inr k)"
proof
  show "groupKey (sourceOfTruth l) = None \<longrightarrow> IssueList_groupKey l = Inl GroupKeyWithoutGroupBy"
    by (simp add: IssueList_groupKey_def)
next
  show "\<forall>g \<in> set (groupBy d f l').
      \<exists>k. groupKey (sourceOfTruth g) = Some k \<and> IssueList_groupKey g = Inr k"
  proof
    fix g assume g: "g \<in> set (groupBy d f l')"
    from group_ok_groupBy [OF g] obtain k where "group_ok d f (k, g)" ..
    then show "\<exists>k. groupKey (sourceOfTruth g) = Some k \<and> IssueList_groupKey g = Inr k"
      by (auto simp: group_ok_def IssueList_groupKey_def)
  qed
qed

theorem groupKey_getter_witness:
  "groupKey (sourceOfTruth example_list) = None \<and>
   IssueList_groupKey example_list = Inl GroupKeyWithoutGroupBy \<and>
   map (\<lambda>g. (groupKey (sourceOfTruth g), IssueList_groupKey g))
     (groupBy example_deps ''type'' example_list) =
   [(Some ''Bug'', Inr ''Bug''), (Some ''Task'', Inr ''Task'')]"
proof -
  have none: "groupKey (sourceOfTruth example_list) = None"
    by (simp add: example_list_def new_IssueList_def)
  have groups: "map (\<lambda>g. (groupKey (sourceOfTruth g), IssueList_groupKey g))
      (groupBy example_deps ''type'' example_list) =
    [(Some ''Bug'', Inr ''Bug''), (Some ''Task'', Inr ''Task'')]"
    by code_simp
  from groupKey_getter [of example_list example_deps "''type''" example_list] none groups
  show ?thesis by simp
qed

section \<open>Rendering\<close>

lemma resolved_resolve_defaults [simp]: "resolved (resolve_defaults w opts)"
  by (simp add: resolved_def resolve_defaults_def Let_def)

lemma resolve_defaults_resolved [simp]: "resolved opts \<Longrightarrow> resolve_defaults w opts = opts"
  by (simp add: resolved_def resolve_defaults_def Let_def)

lemma renderIssue_each_options_aux:
  assumes "\<And>w opts n. w \<in> set ws \<Longrightarrow> snd (renderIssue d w opts n) = resolve_defaults w opts"
    and "resolved opts"
  shows "snd (renderIssue_each d ws opts n acc) = opts"
  using assms
proof (induction ws arbitrary: acc)
  case Nil
  then show ?case by simp
next
  case (Cons w ws)
  obtain r opts' where r: "renderIssue d w opts n = (r, opts')"
    by (cases "renderIssue d w opts n")
  from Cons.prems(1) [of w opts n] r Cons.prems(2) have [simp]: "opts' = opts"
    by simp
  have rest: "snd (renderIssue_each d ws opts n acc') = opts" for acc'
    by (rule Cons.IH) (simp_all add: Cons.prems)
  show ?case
    using r by (cases r) (simp_all add: rest)
qed

lemma size_member: "x \<in> set xs \<Longrightarrow> size x \<le> size_list size xs"
  by (induction xs) auto

lemma renderIssue_options_snd:
  "snd (renderIssue d w opts n) = resolve_defaults w opts"
proof (induction w arbitrary: opts n rule: measure_induct_rule [of size])
  case (less w)
  define x where "x = resolve_defaults w opts"
  have x: "resolved x" by (simp add: x_def)
  have e1: "snd (renderIssue_each d (issues l) x m acc) = x"
    if "IssueWrapper.subissues w = Some l" for l m acc
  proof (rule renderIssue_each_options_aux [OF _ x])
    fix w' opts' n' assume "w' \<in> set (issues l)"
    then have "size w' < size w"
      using size_issues_subissues [OF that] size_member [of w' "issues l"] by simp
    then show "snd (renderIssue d w' opts' n') = resolve_defaults w' opts'"
      by (rule less.IH)
  qed
  have e2: "snd (renderIssue_each d (issues l) x m acc) = x"
    if "IssueWrapper.relatedIssues w = Some l" for l m acc
  proof (rule renderIssue_each_options_aux [OF _ x])
    fix w' opts' n' assume "w' \<in> set (issues l)"
    then have "size w' < size w"
      using size_issues_relatedIssues [OF that] size_member [of w' "issues l"] by simp
    then show "snd (renderIssue d w' opts' n') = resolve_defaults w' opts'"
      by (rule less.IH)
  qed
  show ?case
    unfolding x_def [symmetric]
    by (subst renderIssue.simps)
       (simp add: Let_def case_prod_beta e1 e2 x_def [symmetric] split: option.splits)
qed

lemma renderIssue_options:
  "snd (renderIssue d w opts n) = resolve_defaults w opts"
  "resolved opts \<Longrightarrow> snd (renderIssue_each d ws opts n acc) = opts"
  by (rule renderIssue_options_snd)
     (rule renderIssue_each_options_aux; simp add: renderIssue_options_snd)

lemma rendered_sources_simps [simp]:
  "rendered_sources [] = []"
  "rendered_sources (None # rs) = rendered_sources rs"
  "rendered_sources (Some r # rs) = sources r @ rendered_sources rs"
  by (simp_all add: rendered_sources_def List.map_filter_simps)

lemma render_updates_sources:
  "snd (render_updates d opts n us acc) =
   snd acc @ rendered_sources (map (\<lambda>u. renderComment d u opts (n + 1)) us)"
  by (induction us arbitrary: acc) (auto split: option.splits)

lemma renderIssue_resolved_options:
  "resolved opts \<Longrightarrow> renderIssue d w opts n = (r, opts') \<Longrightarrow> opts' = opts"
  using renderIssue_options(1) [of d w opts n] by simp

lemma renderIssue_each_sources:
  "resolved opts \<Longrightarrow>
   snd (fst (renderIssue_each d ws opts n acc)) =
   snd acc @ rendered_sources (map (\<lambda>s. fst (renderIssue d s opts n)) ws)"
proof (induction ws arbitrary: acc)
  case Nil
  then show ?case by simp
next
  case (Cons w ws)
  obtain r opts' where r: "renderIssue d w opts n = (r, opts')" by (cases "renderIssue d w opts n")
  with Cons.prems have [simp]: "opts' = opts" by (rule renderIssue_resolved_options)
  show ?case
    using r Cons.IH [OF Cons.prems] by (cases r) simp_all
qed

lemma renderIssue_each_options:
  "resolved opts \<Longrightarrow> renderIssue_each d ws opts n acc = (acc', opts') \<Longrightarrow> opts' = opts"
  using renderIssue_options(2) [of opts d ws n acc] by simp

lemma renderIssue_resolve:
  "renderIssue d w (resolve_defaults w opts) n = renderIssue d w opts n"
  by (subst (1 2) renderIssue.simps) simp

lemma nothing_to_render_iff:
  "nothing_to_render d w (resolve_defaults w opts) \<longleftrightarrow>
   \<not> (updates opts \<noteq> 0 \<and> hasUpdate d (issue w) (IssueWrapper_comments w)) \<and>
   \<not> (IssueRenderOptions.body opts \<and> IssueWrapper_body w \<noteq> []) \<and>
   \<not> (subissues_requested w opts \<and>
      (\<exists>l. IssueWrapper.subissues w = Some l \<and> IssueList_hasUpdates d l))"
  by (auto simp: nothing_to_render_def resolve_defaults_def subissues_requested_def Let_def
        split: option.splits)

lemma resolve_defaults_fields [simp]:
  "skipIfEmpty (resolve_defaults w opts) = skipIfEmpty opts"
  "header (resolve_defaults w opts) = header opts"
  by (simp_all add: resolve_defaults_def Let_def)

text \<open>
  C7. When none of these holds: updates are requested and the entity has an update, the
  body is requested and is not empty, sub-issues are requested and a sub-issue has an
  update; then the result is no fragment if \<open>skipIfEmpty\<close> is set or no header is requested,
  and otherwise the fragment that holds the header line and the placeholder sentence.
\<close>

theorem renderIssue_empty:
  assumes "\<not> (updates opts \<noteq> 0 \<and> hasUpdate d (issue w) (IssueWrapper_comments w))"
    and "\<not> (IssueRenderOptions.body opts \<and> IssueWrapper_body w \<noteq> [])"
    and "\<not> (subissues_requested w opts \<and>
            (\<exists>l. IssueWrapper.subissues w = Some l \<and> IssueList_hasUpdates d l))"
  shows "fst (renderIssue d w opts n) =
     (if skipIfEmpty opts \<or> \<not> header opts then None
      else Some \<lparr>markdown = replicate n CHR ''#'' @ '' '' @ IssueWrapper_header w @ ''\<newline>\<newline>''
                     @ ''This Issue has no updates, or body content to render.\<newline>\<newline>'',
                  sources = [IssueWrapper_url w]\<rparr>)"
proof -
  from assms have "nothing_to_render d w (resolve_defaults w opts)"
    by (simp only: nothing_to_render_iff) simp
  then show ?thesis
    by (subst renderIssue.simps) (simp add: Let_def render_header_def placeholder_def)
qed

lemma renderIssue_sources:
  assumes "fst (renderIssue d w opts n) = Some r"
  shows "sources r = IssueWrapper_url w #
     (if nothing_to_render d w (resolve_defaults w opts) then []
      else nested_sources d w (resolve_defaults w opts) n)"
  using assms
  apply (subst (asm) renderIssue.simps)
  apply (simp add: Let_def case_prod_beta renderIssue_options nested_sources_def
      render_updates_sources renderIssue_each_sources
      split: option.splits if_splits)
  apply auto
  done

text \<open>
  C2. Rendering an entity again with the option object that the first call was given (and
  wrote its defaults to) gives the same fragment and leaves the options as they are; and
  the source list of a fragment is the entity's own url followed by the sources of every
  nested fragment it includes: the rendered updates, sub-issues and related issues.
\<close>

theorem renderIssue_idempotent_sources:
  "renderIssue d w (snd (renderIssue d w opts n)) n = renderIssue d w opts n \<and>
   (\<forall>r. fst (renderIssue d w opts n) = Some r \<longrightarrow>
      sources r = IssueWrapper_url w #
        (if nothing_to_render d w (resolve_defaults w opts) then []
         else nested_sources d w (resolve_defaults w opts) n))"
  by (simp add: renderIssue_options renderIssue_resolve renderIssue_sources)


theorem renderIssue_idempotent_sources_witness:
  "renderIssue example_deps example_parent_entity
     (snd (renderIssue example_deps example_parent_entity example_options 3)) 3
     = renderIssue example_deps example_parent_entity example_options 3 \<and>
   map_option sources (fst (renderIssue example_deps example_parent_entity example_options 3))
     = Some [''https://github.com/octo/repo/issues/1'', ''Parent update'',
             ''https://github.com/octo/repo/issues/2'', ''Child update'',
             ''https://github.com/octo/repo/issues/4'', ''Related update''] \<and>
   IssueWrapper_url example_parent_entity #
     nested_sources example_deps example_parent_entity
       (resolve_defaults example_parent_entity example_options) 3
     = [''https://github.com/octo/repo/issues/1'', ''Parent update'',
        ''https://github.com/octo/repo/issues/2'', ''Child update'',
        ''https://github.com/octo/repo/issues/4'', ''Related update'']"
proof -
  have run: "map_option sources
      (fst (renderIssue example_deps example_parent_entity example_options 3))
    = Some [''https://github.com/octo/repo/issues/1'', ''Parent update'',
            ''https://github.com/octo/repo/issues/2'', ''Child update'',
            ''https://github.com/octo/repo/issues/4'', ''Related update'']"
    by code_simp
  have something: "\<not> nothing_to_render example_deps example_parent_entity
      (resolve_defaults example_parent_entity example_options)"
    by code_simp
  from run obtain r where
    r: "fst (renderIssue example_deps example_parent_entity example_options 3) = Some r"
    and sr: "sources r = [''https://github.com/octo/repo/issues/1'', ''Parent update'',
            ''https://github.com/octo/repo/issues/2'', ''Child update'',
            ''https://github.com/octo/repo/issues/4'', ''Related update'']"
    by auto
  from renderIssue_idempotent_sources [of example_deps example_parent_entity example_options 3]
    r sr something run
  show ?thesis by simp
qed

theorem renderIssue_empty_witness:
  "fst (renderIssue example_deps example_bare_entity example_options 3) = None \<and>
   fst (renderIssue example_deps example_bare_entity
          (example_options\<lparr>skipIfEmpty := False\<rparr>) 3)
     = Some \<lparr>markdown =
               ''### [Issue 1](https://github.com/octo/repo/issues/1)\<newline>\<newline>'' @
               ''This Issue has no updates, or body content to render.\<newline>\<newline>'',
             sources = [''https://github.com/octo/repo/issues/1'']\<rparr>"
proof -
  have h1: "\<not> (updates opts \<noteq> 0 \<and>
      hasUpdate example_deps (issue example_bare_entity)
        (IssueWrapper_comments example_bare_entity))" for opts
    by (simp add: example_deps_def example_bare_entity_def new_IssueWrapper_def
          example_issue_def IssueWrapper_comments_def)
  have h2: "\<not> (IssueRenderOptions.body opts \<and> IssueWrapper_body example_bare_entity \<noteq> [])"
    for opts
    by (simp add: example_bare_entity_def new_IssueWrapper_def example_issue_def
          IssueWrapper_body_def trim_def)
  have h3: "\<not> (subissues_requested example_bare_entity opts \<and>
      (\<exists>l. IssueWrapper.subissues example_bare_entity = Some l \<and>
           IssueList_hasUpdates example_deps l))" for opts
    by (simp add: example_bare_entity_def new_IssueWrapper_def)
  have hd: "IssueWrapper_header example_bare_entity
      = ''[Issue 1](https://github.com/octo/repo/issues/1)''"
    by code_simp
  have u: "IssueWrapper_url example_bare_entity = ''https://github.com/octo/repo/issues/1''"
    by code_simp
  from renderIssue_empty [OF h1 h2 h3, of example_options 3]
    renderIssue_empty [OF h1 h2 h3, of "example_options\<lparr>skipIfEmpty := False\<rparr>" 3]
  show ?thesis
    by (simp add: example_options_def hd u numeral_3_eq_3)
qed

section \<open>Validation\<close>

lemma validate_updates_error:
  "validate_updates d v = Inl err \<Longrightarrow> \<exists>n. err = InvalidUpdates n"
  by (auto simp: validate_updates_def split: option.splits if_splits)

lemma validateRenderOptions_invalid_keys:
  "(\<exists>ks. validateRenderOptions d opts = Inl (InvalidRenderOptions ks)) \<longleftrightarrow>
   (\<exists>k \<in> fst ` set opts. k \<notin> set validKeys)"
proof (cases "filter (\<lambda>key. key \<notin> set validKeys) (map fst opts) = []")
  case True
  then have none: "\<not> (\<exists>k \<in> fst ` set opts. k \<notin> set validKeys)"
    by (auto simp: filter_empty_conv)
  have "validateRenderOptions d opts \<noteq> Inl (InvalidRenderOptions ks)" for ks
  proof (cases "validate_updates d (property opts ''updates'')")
    case (Inl err)
    with validate_updates_error [OF Inl] True show ?thesis
      by (auto simp: validateRenderOptions_def)
  next
    case (Inr n)
    with True show ?thesis
      by (simp add: validateRenderOptions_def)
  qed
  with none show ?thesis by blast
next
  case False
  then have some: "\<exists>k \<in> fst ` set opts. k \<notin> set validKeys"
    by (auto simp: filter_empty_conv)
  from False have "validateRenderOptions d opts
      = Inl (InvalidRenderOptions (filter (\<lambda>key. key \<notin> set validKeys) (map fst opts)))"
    by (simp add: validateRenderOptions_def)
  with some show ?thesis by blast
qed

text \<open>
  C9, at the input where the code departs from the documented key set: an option object
  whose only key is \<open>relatedIssues\<close> is refused with an invalid-key error, whatever its value.
\<close>

theorem validateRenderOptions_relatedIssues:
  "validateRenderOptions d [(''relatedIssues'', v)] = Inl (InvalidRenderOptions [''relatedIssues''])"
  by (simp add: validateRenderOptions_def validKeys_def)

section \<open>Fetching: the identity of an entity\<close>

text \<open>No step of a fetch changes the organization, repository or number of an entity.\<close>

lemma identity_set_issue:
  "repository i = repository (issue w) \<Longrightarrow> Issue.number i = Issue.number (issue w) \<Longrightarrow>
   IssueWrapper_identity (set_issue i w) = IssueWrapper_identity w"
  by (cases w) (simp add: IssueWrapper_identity_def IssueWrapper_organization_def
      IssueWrapper_repository_def IssueWrapper_number_def)

lemma identity_setters [simp]:
  "IssueWrapper_identity (set_commentList c w) = IssueWrapper_identity w"
  "IssueWrapper_identity (set_subissues s w) = IssueWrapper_identity w"
  "IssueWrapper_identity (set_relatedIssues r w) = IssueWrapper_identity w"
  "IssueWrapper_identity (IssueWrapper_set_comments cs w) = IssueWrapper_identity w"
  "IssueWrapper_identity (IssueWrapper_set_project p w) = IssueWrapper_identity w"
  by (cases w; simp add: IssueWrapper_identity_def IssueWrapper_organization_def
      IssueWrapper_repository_def IssueWrapper_number_def IssueWrapper_set_comments_def
      IssueWrapper_set_project_def)+

lemma identity_skip [simp]: "IssueWrapper_identity (fst (snd (skip w))) = IssueWrapper_identity w"
  by (simp add: skip_def)

lemma identity_and_then:
  "(\<And>w. IssueWrapper_identity (fst (snd (f w))) = IssueWrapper_identity w) \<Longrightarrow>
   IssueWrapper_identity (fst (snd (and_then r f))) = IssueWrapper_identity (fst (snd r))"
  by (auto simp: and_then_def split: prod.splits outcome.splits) (metis fst_conv snd_conv)

lemma identity_fetchComments [simp]:
  "IssueWrapper_identity (fst (snd (IssueWrapper_fetchComments e n w))) = IssueWrapper_identity w"
  by (auto simp: IssueWrapper_fetchComments_def identity_set_issue
        split: option.splits sum.splits)

lemma identity_fetch_comments_step [simp]:
  "IssueWrapper_identity (fst (snd (fetch_comments_step e params w))) = IssueWrapper_identity w"
  by (auto simp: fetch_comments_step_def split: sum.splits)

lemma identity_fetchProjectFields [simp]:
  "IssueWrapper_identity (fst (snd (IssueWrapper_fetchProjectFields e pn w)))
     = IssueWrapper_identity w"
  by (auto simp: IssueWrapper_fetchProjectFields_def split: option.splits sum.splits)

lemma identity_fetchSubissues [simp]:
  "IssueWrapper_identity (fst (snd (IssueWrapper_fetchSubissues rec e d params w)))
     = IssueWrapper_identity w"
  by (auto simp: IssueWrapper_fetchSubissues_def
        split: option.splits sum.splits prod.splits outcome.splits)

lemma identity_followLinks [simp]:
  "IssueWrapper_identity (fst (snd (IssueWrapper_followLinks rec e d params w)))
     = IssueWrapper_identity w"
  by (auto simp: IssueWrapper_followLinks_def Let_def
        split: option.splits sum.splits prod.splits outcome.splits)

lemma identity_fetch_body [simp]:
  "IssueWrapper_identity (fst (snd (fetch_body rec e d params w))) = IssueWrapper_identity w"
  unfolding fetch_body_def
  by (simp add: identity_and_then split: option.splits)

lemma identity_fetch [simp]:
  "IssueWrapper_identity (fst (snd (IssueWrapper_fetch n e d params w))) = IssueWrapper_identity w"
  by (cases n) simp_all

lemma identity_assign_first:
  "(\<And>x. g (f x) = g x) \<Longrightarrow> assign_first P f xs = Some ys \<Longrightarrow> map g ys = map g xs"
  by (induction xs arbitrary: ys) (auto split: if_splits)

lemma identity_assign_comments:
  "map IssueWrapper_identity (snd (assign_comments cm ws)) = map IssueWrapper_identity ws"
proof (induction cm ws rule: assign_comments.induct)
  case (1 ws)
  then show ?case by simp
next
  case (2 issueParams cs commentsMap ws)
  then show ?case
    by (auto split: option.splits dest!: identity_assign_first [where g = IssueWrapper_identity, rotated])
qed

lemma issues_setters [simp]:
  "issues (set_commentsFetched b l) = issues l"
  "issues (set_projectFieldsFetched b l) = issues l"
  "issues (set_projectNumber pn l) = issues l"
  "issues (set_organization og l) = issues l"
  "issues (set_sourceOfTruth s l) = issues l"
  "issues (set_issues ws l) = ws"
  by (cases l; simp)+

lemma sourceOfTruth_setters [simp]:
  "sourceOfTruth (set_commentsFetched b l) = sourceOfTruth l"
  "sourceOfTruth (set_projectFieldsFetched b l) = sourceOfTruth l"
  "sourceOfTruth (set_projectNumber pn l) = sourceOfTruth l"
  "sourceOfTruth (set_organization og l) = sourceOfTruth l"
  "sourceOfTruth (set_sourceOfTruth s l) = s"
  "sourceOfTruth (set_issues ws l) = sourceOfTruth l"
  by (cases l; simp)+

lemma identity_IssueList_fetchComments:
  "map IssueWrapper_identity (issues (fst (snd (IssueList_fetchComments e n l))))
     = map IssueWrapper_identity (issues l)"
  using identity_assign_comments
  by (auto simp: IssueList_fetchComments_def Let_def
        split: sum.splits prod.splits outcome.splits) (metis snd_conv)+

lemma sourceOfTruth_IssueList_fetchComments [simp]:
  "sourceOfTruth (fst (snd (IssueList_fetchComments e n l))) = sourceOfTruth l"
  by (auto simp: IssueList_fetchComments_def Let_def
        split: sum.splits prod.splits outcome.splits)

lemma sourceOfTruth_IssueList_fetchProjectFields [simp]:
  "sourceOfTruth (fst (snd (IssueList_fetchProjectFields e pn l))) = sourceOfTruth l"
  by (auto simp: IssueList_fetchProjectFields_def Let_def
        split: sum.splits prod.splits option.splits)

lemma identity_fetch_each:
  "(\<And>w. IssueWrapper_identity (fst (snd (rec params w))) = IssueWrapper_identity w) \<Longrightarrow>
   map IssueWrapper_identity (fst (snd (fetch_each rec params ws))) = map IssueWrapper_identity ws"
proof (induction ws)
  case Nil
  then show ?case by simp
next
  case (Cons w ws)
  from Cons.prems [of w] Cons.IH [OF Cons.prems] show ?case
    by (auto split: prod.splits outcome.splits)
qed


lemma and_then_state:
  "fst (snd (and_then r f)) =
     (case fst r of Returned u \<Rightarrow> fst (snd (f (fst (snd r)))) | Thrown err \<Rightarrow> fst (snd r)
      | OutOfFuel \<Rightarrow> fst (snd r))"
  by (auto simp: and_then_def split: prod.splits outcome.splits)

lemma identity_assign_project_fields:
  "map IssueWrapper_identity (assign_project_fields org pn items ws) = map IssueWrapper_identity ws"
proof (induction org pn items ws rule: assign_project_fields.induct)
  case (1 org pn ws)
  then show ?case by simp
next
  case (2 org pn issueParams fs items ws)
  then show ?case
    by (auto split: option.splits dest!: identity_assign_first [where g = IssueWrapper_identity, rotated])
qed

lemma identity_IssueList_fetchProjectFields:
  "map IssueWrapper_identity (issues (fst (snd (IssueList_fetchProjectFields e pn l))))
     = map IssueWrapper_identity (issues l)"
  by (auto simp: IssueList_fetchProjectFields_def Let_def identity_assign_project_fields comp_def
        split: sum.splits prod.splits option.splits)

lemma sourceOfTruth_IssueList_fetch:
  "sourceOfTruth (fst (snd (IssueList_fetch rec e params l))) = sourceOfTruth l"
  by (auto simp: IssueList_fetch_def and_then_state skip_def split: outcome.splits prod.splits)

lemma identity_IssueList_fetch:
  assumes "\<And>w. IssueWrapper_identity (fst (snd (rec params w))) = IssueWrapper_identity w"
  shows "subseq (map IssueWrapper_identity (issues (fst (snd (IssueList_fetch rec e params l)))))
           (map IssueWrapper_identity (issues l)) \<and>
         ((\<forall>w. filter' params w) \<longrightarrow>
            map IssueWrapper_identity (issues (fst (snd (IssueList_fetch rec e params l))))
              = map IssueWrapper_identity (issues l))"
proof -
  define ids where "ids = (\<lambda>l :: IssueWrapper IssueList. map IssueWrapper_identity (issues l))"
  define step1 where "step1 = (if projectFields params \<and> truthy_number (projectNumber l)
        then IssueList_fetchProjectFields e (projectNumber l) l else skip l)"
  define step2 where "step2 = (\<lambda>l. if 0 < comments params
        then IssueList_fetchComments e (comments params) l else skip l)"
  define step3 where "step3 = (\<lambda>l. case fetch_each rec params (IssueList_filter (filter' params) l) of
                  (r, ws, evs) \<Rightarrow> (r, set_issues ws l, evs))"
  define l1 where "l1 = fst (snd step1)"
  define l2 where "l2 = fst (snd (step2 l1))"
  define l3 where "l3 = fst (snd (step3 l2))"
  have run: "IssueList_fetch rec e params l = and_then step1 (\<lambda>l. and_then (step2 l) step3)"
    by (simp add: IssueList_fetch_def step1_def step2_def step3_def)
  have final: "fst (snd (IssueList_fetch rec e params l)) \<in> {l1, l2, l3}"
    unfolding run by (simp add: and_then_state l1_def l2_def l3_def split: outcome.splits)
  have 1: "ids l1 = ids l"
    by (simp add: ids_def l1_def step1_def identity_IssueList_fetchProjectFields skip_def)
  have 2: "ids l2 = ids l1"
    by (simp add: ids_def l2_def step2_def identity_IssueList_fetchComments skip_def)
  have each: "map IssueWrapper_identity (fst (snd (fetch_each rec params ws)))
      = map IssueWrapper_identity ws" for ws
    by (rule identity_fetch_each) (rule assms)
  have 3: "ids l3 = map IssueWrapper_identity (filter (filter' params) (issues l2))"
    by (simp add: ids_def l3_def step3_def IssueList_filter_def each split: prod.splits)
       (metis each fst_conv snd_conv)
  have sub: "subseq (ids l3) (ids l2)"
    using 3 by (auto simp: ids_def intro!: subseq_map)
  have all: "(\<forall>w. filter' params w) \<Longrightarrow> ids l3 = ids l2"
    using 3 by (simp add: ids_def)
  from final 1 2 sub all show ?thesis
    unfolding ids_def by auto
qed


section \<open>Project fields of an entity\<close>

text \<open>
  C3. On an entity that carries project data for project number \<open>P1\<close>,
  \<open>fetchProjectFields\<close> for \<open>P1\<close> returns with the entity as it was and no remote call, and
  for any other number \<open>P2\<close> it throws, again with the entity as it was and no remote call.
\<close>

theorem fetchProjectFields_single_project:
  assumes "project (issue w) = Some p"
  shows "IssueWrapper_fetchProjectFields e (Project.number p) w = (Returned (), w, []) \<and>
         (P2 \<noteq> Project.number p \<longrightarrow>
            IssueWrapper_fetchProjectFields e P2 w
              = (Thrown (AlreadyAssociated (Project.number p) P2), w, []))"
  using assms by (simp add: IssueWrapper_fetchProjectFields_def)

theorem fetchProjectFields_single_project_witness:
  "project (issue example_project_entity)
     = Some \<lparr>Project.organization = ''octo'', number = 1, fields' = []\<rparr> \<and>
   IssueWrapper_fetchProjectFields example_env 1 example_project_entity
     = (Returned (), example_project_entity, []) \<and>
   IssueWrapper_fetchProjectFields example_env 2 example_project_entity
     = (Thrown (AlreadyAssociated 1 2), example_project_entity, [])"
proof -
  have p: "project (issue example_project_entity)
     = Some \<lparr>Project.organization = ''octo'', number = 1, fields' = []\<rparr>"
    by (simp add: example_project_entity_def new_IssueWrapper_def)
  from fetchProjectFields_single_project [OF p, of example_env 2] p
  show ?thesis by simp
qed

section \<open>Collections from urls\<close>

lemma forUrls_loop_never_throws:
  "fst (forUrls_loop rec e params us) \<noteq> Thrown err"
  by (induction us) (auto split: prod.splits outcome.splits)

lemma forUrls_loop_resolved:
  assumes "\<forall>u \<in> set us. fst (IssueWrapper_forUrl n e d u params) \<noteq> OutOfFuel"
  shows "fst (IssueList_forUrls_loop n e d us params) = Returned (resolved_entities n e d us params) \<and>
         subseq (url_warnings n e d us params) (snd (IssueList_forUrls_loop n e d us params))"
  using assms
proof (induction us)
  case Nil
  then show ?case
    by (simp add: IssueList_forUrls_loop_def resolved_entities_def url_warnings_def)
next
  case (Cons u us)
  define rec where "rec = IssueWrapper_fetch n e d"
  obtain r evs where fu: "forUrl rec e u params = (r, evs)"
    by (cases "forUrl rec e u params")
  obtain evs' where rest: "forUrls_loop rec e params us = (Returned (resolved_entities n e d us params), evs')"
    and warn: "subseq (url_warnings n e d us params) evs'"
    using Cons by (cases "forUrls_loop rec e params us") (auto simp: IssueList_forUrls_loop_def rec_def)
  from Cons.prems fu have fuel: "r \<noteq> OutOfFuel"
    by (simp add: IssueWrapper_forUrl_def rec_def)
  show ?case
  proof (cases r)
    case (Returned w)
    with fu rest warn show ?thesis
      by (simp add: IssueList_forUrls_loop_def resolved_entities_def url_warnings_def
            IssueWrapper_forUrl_def rec_def [symmetric] list_emb_append2)
  next
    case (Thrown err)
    with fu rest warn show ?thesis
      by (simp add: IssueList_forUrls_loop_def resolved_entities_def url_warnings_def
            IssueWrapper_forUrl_def rec_def [symmetric] list_emb_append2)
  next
    case OutOfFuel
    with fuel show ?thesis by simp
  qed
qed

lemma resolved_entities_all_fail:
  "\<forall>u \<in> set us. \<exists>err. fst (IssueWrapper_forUrl n e d u params) = Thrown err \<Longrightarrow>
   resolved_entities n e d us params = []"
  by (induction us) (auto simp: resolved_entities_def)

lemma forUrls_loop_unresolved:
  "\<exists>u \<in> set us. fst (forUrl rec e u params) = OutOfFuel \<Longrightarrow>
   fst (forUrls_loop rec e params us) = OutOfFuel"
proof (induction us)
  case Nil
  then show ?case by simp
next
  case (Cons u us)
  show ?case
  proof (cases "fst (forUrl rec e u params) = OutOfFuel")
    case True
    then show ?thesis by (cases "forUrl rec e u params") simp
  next
    case False
    with Cons.prems have "\<exists>u \<in> set us. fst (forUrl rec e u params) = OutOfFuel" by simp
    then have "fst (forUrls_loop rec e params us) = OutOfFuel" by (rule Cons.IH)
    then show ?thesis
      by (cases "forUrl rec e u params"; cases "forUrls_loop rec e params us")
         (auto split: outcome.splits)
  qed
qed

lemma projectNumber_forUrls_collection:
  "projectNumber (forUrls_collection n e d us params) = None"
  by (simp add: forUrls_collection_def new_IssueList_def)

text \<open>The fetch of the collection of \<open>forUrls\<close>, by its stages.\<close>

lemma IssueList_fetch_forUrls_collection:
  "IssueList_fetch (IssueWrapper_fetch n e d) e params (forUrls_collection n e d us params) =
     (case forUrls_commented n e d us params of
        (Returned u, l, evs) \<Rightarrow>
          (fst (forUrls_refetched n e d us params),
           set_issues (fst (snd (forUrls_refetched n e d us params))) l,
           evs @ snd (snd (forUrls_refetched n e d us params)))
      | (Thrown err, l, evs) \<Rightarrow> (Thrown err, l, evs)
      | (OutOfFuel, l, evs) \<Rightarrow> (OutOfFuel, l, evs))"
  by (simp add: IssueList_fetch_def projectNumber_forUrls_collection truthy_number_def
        and_then_def skip_def forUrls_commented_def forUrls_refetched_def forUrls_passing_def
        IssueList_filter_def case_prod_beta
      split: outcome.splits)

lemma forUrls_outcome:
  assumes "resolutions_end n e d us params"
  shows "fst (IssueList_forUrls n e d us params) =
     (case fst (forUrls_commented n e d us params) of
        Returned u \<Rightarrow>
          (case fst (forUrls_refetched n e d us params) of
             Returned u \<Rightarrow>
               Returned (set_issues (fst (snd (forUrls_refetched n e d us params)))
                           (fst (snd (forUrls_commented n e d us params))))
           | Thrown err \<Rightarrow> Thrown err
           | OutOfFuel \<Rightarrow> OutOfFuel)
      | Thrown err \<Rightarrow> Thrown err
      | OutOfFuel \<Rightarrow> OutOfFuel)"
proof -
  from assms have "fst (IssueList_forUrls_loop n e d us params)
      = Returned (resolved_entities n e d us params)"
    using forUrls_loop_resolved by (simp add: resolutions_end_def)
  then obtain evs where loop: "forUrls_loop (IssueWrapper_fetch n e d) e params us
      = (Returned (resolved_entities n e d us params), evs)"
    by (cases "forUrls_loop (IssueWrapper_fetch n e d) e params us")
       (simp add: IssueList_forUrls_loop_def)
  show ?thesis
    unfolding IssueList_forUrls_def forUrls_def loop
    by (simp add: forUrls_collection_def [symmetric] IssueList_fetch_forUrls_collection
          case_prod_beta split: outcome.splits)
qed

lemma forUrls_unresolved:
  assumes "\<not> resolutions_end n e d us params"
  shows "fst (IssueList_forUrls_loop n e d us params) = OutOfFuel"
    and "fst (IssueList_forUrls n e d us params) = OutOfFuel"
proof -
  from assms have "\<exists>u \<in> set us. fst (forUrl (IssueWrapper_fetch n e d) e u params) = OutOfFuel"
    by (simp add: resolutions_end_def IssueWrapper_forUrl_def)
  then have loop: "fst (forUrls_loop (IssueWrapper_fetch n e d) e params us) = OutOfFuel"
    by (rule forUrls_loop_unresolved)
  then show "fst (IssueList_forUrls_loop n e d us params) = OutOfFuel"
    by (simp add: IssueList_forUrls_loop_def)
  from loop show "fst (IssueList_forUrls n e d us params) = OutOfFuel"
    by (cases "forUrls_loop (IssueWrapper_fetch n e d) e params us")
       (simp add: IssueList_forUrls_def forUrls_def)
qed

lemma forUrls_commented_identities:
  "map IssueWrapper_identity (issues (fst (snd (forUrls_commented n e d us params))))
     = map IssueWrapper_identity (resolved_entities n e d us params)"
  by (simp add: forUrls_commented_def identity_IssueList_fetchComments skip_def
        forUrls_collection_def)

lemma sourceOfTruth_forUrls_commented:
  "sourceOfTruth (fst (snd (forUrls_commented n e d us params)))
     = \<lparr>SourceOfTruth.title = ''Issues from URLs'', url = ''Multiple URLs'', groupKey = None\<rparr>"
  by (simp add: forUrls_commented_def skip_def forUrls_collection_def new_IssueList_def)

lemma forUrls_refetched_identities:
  "map IssueWrapper_identity (fst (snd (forUrls_refetched n e d us params)))
     = map IssueWrapper_identity (forUrls_passing n e d us params)"
  unfolding forUrls_refetched_def by (rule identity_fetch_each) (rule identity_fetch)

lemma forUrls_passing_subseq:
  "subseq (map IssueWrapper_identity (forUrls_passing n e d us params))
     (map IssueWrapper_identity (resolved_entities n e d us params))"
  unfolding forUrls_commented_identities [symmetric] forUrls_passing_def
  by (intro subseq_map subseq_filter_left)

lemma forUrls_passing_uncommented:
  "\<not> 0 < comments params \<Longrightarrow>
   forUrls_passing n e d us params = filter (filter' params) (resolved_entities n e d us params)"
  by (simp add: forUrls_passing_def forUrls_commented_def skip_def forUrls_collection_def)

lemma forUrls_returned_iff:
  assumes "resolutions_end n e d us params"
  shows "fst (IssueList_forUrls n e d us params) = Returned L \<longleftrightarrow>
     fst (forUrls_commented n e d us params) = Returned () \<and>
     fst (forUrls_refetched n e d us params) = Returned () \<and>
     L = set_issues (fst (snd (forUrls_refetched n e d us params)))
           (fst (snd (forUrls_commented n e d us params)))"
  unfolding forUrls_outcome [OF assms] by (auto split: outcome.splits)

lemma forUrls_thrown_iff:
  assumes "resolutions_end n e d us params"
  shows "fst (IssueList_forUrls n e d us params) = Thrown err \<longleftrightarrow>
     fst (forUrls_commented n e d us params) = Thrown err \<or>
     fst (forUrls_commented n e d us params) = Returned () \<and>
     fst (forUrls_refetched n e d us params) = Thrown err"
  unfolding forUrls_outcome [OF assms] by (auto split: outcome.splits)

lemma forUrls_returned_collection:
  assumes "fst (IssueList_forUrls n e d us params) = Returned L"
  shows "L = set_issues (fst (snd (forUrls_refetched n e d us params)))
           (fst (snd (forUrls_commented n e d us params)))"
proof -
  have "resolutions_end n e d us params"
    using assms forUrls_unresolved(2) [of n e d us params] by auto
  with assms show ?thesis by (simp add: forUrls_returned_iff)
qed

lemma forUrls_total_failure_returns:
  assumes fail: "\<forall>u \<in> set us. \<exists>err. fst (IssueWrapper_forUrl n e d u params) = Thrown err"
    and "\<not> 0 < comments params"
  shows "fst (IssueList_forUrls n e d us params) =
     Returned (new_IssueList []
       \<lparr>SourceOfTruth.title = ''Issues from URLs'', url = ''Multiple URLs'', groupKey = None\<rparr>)"
proof -
  from fail have ends: "resolutions_end n e d us params"
    by (auto simp: resolutions_end_def)
  from fail have none: "resolved_entities n e d us params = []"
    by (rule resolved_entities_all_fail)
  show ?thesis
    unfolding forUrls_outcome [OF ends] using assms(2)
    by (simp add: forUrls_refetched_def forUrls_passing_def forUrls_commented_def skip_def
          forUrls_collection_def none new_IssueList_def)
qed

text \<open>Parameters that ask for nothing beyond the issue itself: the fetch of an entity returns at once.\<close>

lemma fetch_plain:
  assumes "\<not> 0 < comments params" "\<not> projectFields params"
    "\<not> IssueFetchParameters.subissues params" "\<not> followLinks params"
  shows "IssueWrapper_fetch (Suc n) e d params w = (Returned (), w, [])"
  using assms
  by (simp add: fetch_body_def fetch_comments_step_def and_then_def skip_def
        split: option.splits)

lemma fetch_each_plain:
  "(\<And>w. rec params w = (Returned (), w, [])) \<Longrightarrow>
   fetch_each rec params ws = (Returned (), ws, [])"
  by (induction ws) simp_all

lemma forUrl_plain:
  "(\<And>w. rec params w = (Returned (), w, [])) \<Longrightarrow> fst (forUrl rec e u params) \<noteq> OutOfFuel"
  by (simp add: forUrl_def forIssue_def split: sum.splits option.splits IssueMatch.splits)

lemma resolutions_end_plain:
  assumes "\<not> 0 < comments params" "\<not> projectFields params"
    "\<not> IssueFetchParameters.subissues params" "\<not> followLinks params" "0 < n"
  shows "resolutions_end n e d us params"
proof -
  from assms(5) obtain m where n: "n = Suc m" by (cases n) auto
  have rec: "IssueWrapper_fetch n e d params w = (Returned (), w, [])" for w
    unfolding n using assms(1-4) by (rule fetch_plain)
  show ?thesis
    unfolding resolutions_end_def IssueWrapper_forUrl_def
    using forUrl_plain [of "IssueWrapper_fetch n e d" params, OF rec] by blast
qed

lemma forUrls_plain:
  assumes plain: "\<not> 0 < comments params" "\<not> projectFields params"
    "\<not> IssueFetchParameters.subissues params" "\<not> followLinks params"
    and fuel: "0 < n"
  shows "fst (IssueList_forUrls n e d us params) =
     Returned (set_issues (filter (filter' params) (resolved_entities n e d us params))
       (new_IssueList []
          \<lparr>SourceOfTruth.title = ''Issues from URLs'', url = ''Multiple URLs'',
           groupKey = None\<rparr>))"
proof -
  from fuel obtain m where n: "n = Suc m" by (cases n) auto
  have rec: "IssueWrapper_fetch n e d params w = (Returned (), w, [])" for w
    unfolding n using plain by (rule fetch_plain)
  have ends: "resolutions_end n e d us params"
    unfolding resolutions_end_def IssueWrapper_forUrl_def
    using forUrl_plain [of "IssueWrapper_fetch n e d" params, OF rec] by blast
  have commented: "forUrls_commented n e d us params
      = (Returned (), forUrls_collection n e d us params, [])"
    using plain(1) by (simp add: forUrls_commented_def skip_def)
  have refetched: "forUrls_refetched n e d us params
      = (Returned (), forUrls_passing n e d us params, [])"
    unfolding forUrls_refetched_def by (rule fetch_each_plain) (rule rec)
  show ?thesis
    unfolding forUrls_outcome [OF ends]
    by (simp add: refetched commented forUrls_passing_uncommented [OF plain(1)]
          forUrls_collection_def new_IssueList_def)
qed

text \<open>
  C8, as the code has it. The loop of \<open>forUrls\<close> never throws: a url whose resolution fails
  is logged as a warning, and when the resolution of every url ends, the loop ends with
  exactly the entities of the urls that resolve, in the order of the urls; when the
  resolution of some url does not end, neither does \<open>forUrls\<close>. \<open>forUrls\<close> then fetches
  the collection titled \<open>Issues from URLs\<close> over these entities, outside the \<open>try\<close>: it
  returns exactly when the comment fetch of the collection and the fetch of each entity
  that passes the filter return, and it throws exactly when one of them throws. The
  collection that it returns holds, in order, exactly the resolved entities that pass the
  filter of the parameters (entities by organization, repository and number; the filter
  reads them as the comment fetch of the collection leaves them, which is as resolved when
  no comments are asked for): all the resolved entities when the filter accepts
  everything, and none when every url fails. When every url fails and no comments are
  asked for, \<open>forUrls\<close> returns the empty collection titled \<open>Issues from URLs\<close>. With
  parameters that ask for no comments, project fields, sub-issues or links, \<open>forUrls\<close>
  returns for every list of urls, and its collection holds the resolved entities that pass
  the filter, unchanged.
\<close>

theorem forUrls_resolution:
  "(\<forall>err. fst (IssueList_forUrls_loop n e d us params) \<noteq> Thrown err) \<and>
   (resolutions_end n e d us params \<longrightarrow>
      fst (IssueList_forUrls_loop n e d us params) = Returned (resolved_entities n e d us params) \<and>
      subseq (url_warnings n e d us params) (snd (IssueList_forUrls_loop n e d us params)) \<and>
      (\<forall>L. fst (IssueList_forUrls n e d us params) = Returned L \<longleftrightarrow>
         fst (forUrls_commented n e d us params) = Returned () \<and>
         fst (forUrls_refetched n e d us params) = Returned () \<and>
         L = set_issues (fst (snd (forUrls_refetched n e d us params)))
               (fst (snd (forUrls_commented n e d us params)))) \<and>
      (\<forall>err. fst (IssueList_forUrls n e d us params) = Thrown err \<longleftrightarrow>
         fst (forUrls_commented n e d us params) = Thrown err \<or>
         fst (forUrls_commented n e d us params) = Returned () \<and>
         fst (forUrls_refetched n e d us params) = Thrown err)) \<and>
   (\<not> resolutions_end n e d us params \<longrightarrow>
      fst (IssueList_forUrls_loop n e d us params) = OutOfFuel \<and>
      fst (IssueList_forUrls n e d us params) = OutOfFuel) \<and>
   (\<forall>L. fst (IssueList_forUrls n e d us params) = Returned L \<longrightarrow>
      sourceOfTruth L = \<lparr>SourceOfTruth.title = ''Issues from URLs'', url = ''Multiple URLs'',
                          groupKey = None\<rparr> \<and>
      map IssueWrapper_identity (issues L)
        = map IssueWrapper_identity (forUrls_passing n e d us params) \<and>
      subseq (map IssueWrapper_identity (issues L))
        (map IssueWrapper_identity (resolved_entities n e d us params)) \<and>
      ((\<forall>w. filter' params w) \<longrightarrow>
         map IssueWrapper_identity (issues L)
           = map IssueWrapper_identity (resolved_entities n e d us params)) \<and>
      ((\<forall>u \<in> set us. \<exists>err. fst (IssueWrapper_forUrl n e d u params) = Thrown err) \<longrightarrow>
         issues L = [])) \<and>
   map IssueWrapper_identity (issues (fst (snd (forUrls_commented n e d us params))))
     = map IssueWrapper_identity (resolved_entities n e d us params) \<and>
   (\<not> 0 < comments params \<longrightarrow>
      forUrls_passing n e d us params
        = filter (filter' params) (resolved_entities n e d us params)) \<and>
   ((\<forall>u \<in> set us. \<exists>err. fst (IssueWrapper_forUrl n e d u params) = Thrown err) \<and>
    \<not> 0 < comments params \<longrightarrow>
      fst (IssueList_forUrls n e d us params) =
        Returned (new_IssueList []
          \<lparr>SourceOfTruth.title = ''Issues from URLs'', url = ''Multiple URLs'',
           groupKey = None\<rparr>)) \<and>
   (\<not> 0 < comments params \<and> \<not> projectFields params \<and>
    \<not> IssueFetchParameters.subissues params \<and> \<not> followLinks params \<and> 0 < n \<longrightarrow>
      resolutions_end n e d us params \<and>
      fst (IssueList_forUrls n e d us params) =
        Returned (set_issues (filter (filter' params) (resolved_entities n e d us params))
          (new_IssueList []
             \<lparr>SourceOfTruth.title = ''Issues from URLs'', url = ''Multiple URLs'',
              groupKey = None\<rparr>)))"
proof (intro conjI allI impI)
  fix err
  show "fst (IssueList_forUrls_loop n e d us params) \<noteq> Thrown err"
    unfolding IssueList_forUrls_loop_def by (rule forUrls_loop_never_throws)
next
  assume ends: "resolutions_end n e d us params"
  then have loop: "fst (IssueList_forUrls_loop n e d us params)
        = Returned (resolved_entities n e d us params) \<and>
      subseq (url_warnings n e d us params) (snd (IssueList_forUrls_loop n e d us params))"
    unfolding resolutions_end_def by (rule forUrls_loop_resolved)
  from loop show "fst (IssueList_forUrls_loop n e d us params)
      = Returned (resolved_entities n e d us params)" by simp
  from loop show "subseq (url_warnings n e d us params)
      (snd (IssueList_forUrls_loop n e d us params))" by simp
  fix L
  show "fst (IssueList_forUrls n e d us params) = Returned L \<longleftrightarrow>
     fst (forUrls_commented n e d us params) = Returned () \<and>
     fst (forUrls_refetched n e d us params) = Returned () \<and>
     L = set_issues (fst (snd (forUrls_refetched n e d us params)))
           (fst (snd (forUrls_commented n e d us params)))"
    using ends by (rule forUrls_returned_iff)
next
  fix err
  assume "resolutions_end n e d us params"
  then show "fst (IssueList_forUrls n e d us params) = Thrown err \<longleftrightarrow>
     fst (forUrls_commented n e d us params) = Thrown err \<or>
     fst (forUrls_commented n e d us params) = Returned () \<and>
     fst (forUrls_refetched n e d us params) = Thrown err"
    by (rule forUrls_thrown_iff)
next
  assume "\<not> resolutions_end n e d us params"
  then show "fst (IssueList_forUrls_loop n e d us params) = OutOfFuel"
    and "fst (IssueList_forUrls n e d us params) = OutOfFuel"
    by (rule forUrls_unresolved)+
next
  fix L
  assume "fst (IssueList_forUrls n e d us params) = Returned L"
  then have L: "L = set_issues (fst (snd (forUrls_refetched n e d us params)))
           (fst (snd (forUrls_commented n e d us params)))"
    by (rule forUrls_returned_collection)
  show "sourceOfTruth L = \<lparr>SourceOfTruth.title = ''Issues from URLs'', url = ''Multiple URLs'',
                          groupKey = None\<rparr>"
    by (simp add: L sourceOfTruth_forUrls_commented)
  show ids: "map IssueWrapper_identity (issues L)
      = map IssueWrapper_identity (forUrls_passing n e d us params)"
    by (simp add: L forUrls_refetched_identities)
  show "subseq (map IssueWrapper_identity (issues L))
      (map IssueWrapper_identity (resolved_entities n e d us params))"
    unfolding ids by (rule forUrls_passing_subseq)
  {
    assume "\<forall>w. filter' params w"
    then show "map IssueWrapper_identity (issues L)
         = map IssueWrapper_identity (resolved_entities n e d us params)"
      unfolding ids by (simp add: forUrls_passing_def forUrls_commented_identities)
  }
  {
    assume "\<forall>u \<in> set us. \<exists>err. fst (IssueWrapper_forUrl n e d u params) = Thrown err"
    then have "resolved_entities n e d us params = []"
      by (rule resolved_entities_all_fail)
    with forUrls_passing_subseq [of n e d us params]
    have "map IssueWrapper_identity (forUrls_passing n e d us params) = []"
      by (auto dest: list_emb_Nil2)
    with ids show "issues L = []"
      by simp
  }
next
  show "map IssueWrapper_identity (issues (fst (snd (forUrls_commented n e d us params))))
     = map IssueWrapper_identity (resolved_entities n e d us params)"
    by (rule forUrls_commented_identities)
next
  assume "\<not> 0 < comments params"
  then show "forUrls_passing n e d us params
        = filter (filter' params) (resolved_entities n e d us params)"
    by (rule forUrls_passing_uncommented)
next
  assume "(\<forall>u \<in> set us. \<exists>err. fst (IssueWrapper_forUrl n e d u params) = Thrown err) \<and>
    \<not> 0 < comments params"
  then show "fst (IssueList_forUrls n e d us params) =
        Returned (new_IssueList []
          \<lparr>SourceOfTruth.title = ''Issues from URLs'', url = ''Multiple URLs'',
           groupKey = None\<rparr>)"
    by (simp add: forUrls_total_failure_returns)
next
  assume plain: "\<not> 0 < comments params \<and> \<not> projectFields params \<and>
    \<not> IssueFetchParameters.subissues params \<and> \<not> followLinks params \<and> 0 < n"
  then show "resolutions_end n e d us params"
    by (simp add: resolutions_end_plain)
  from plain show "fst (IssueList_forUrls n e d us params) =
        Returned (set_issues (filter (filter' params) (resolved_entities n e d us params))
          (new_IssueList []
             \<lparr>SourceOfTruth.title = ''Issues from URLs'', url = ''Multiple URLs'',
              groupKey = None\<rparr>))"
    by (simp add: forUrls_plain)
qed

text \<open>
  One malformed url and two valid ones: the two entities, and a warning for the first; the
  same urls under a filter that rejects issue 2; and the malformed url alone.
\<close>

theorem forUrls_resolution_witness:
  "resolutions_end 1 example_env example_deps example_urls example_fetch_parameters \<and>
   fst (IssueList_forUrls_loop 1 example_env example_deps example_urls example_fetch_parameters)
     = Returned [new_IssueWrapper (example_issue 1 ''Task''),
                 new_IssueWrapper (example_issue 2 ''Task'')] \<and>
   subseq [Warning_Url ''not-a-url'' (UnsupportedHostname ''not-a-url'')]
     (snd (IssueList_forUrls_loop 1 example_env example_deps example_urls
             example_fetch_parameters)) \<and>
   (\<exists>L. fst (IssueList_forUrls 1 example_env example_deps example_urls example_fetch_parameters)
           = Returned L \<and>
      IssueList_title L = ''Issues from URLs'' \<and>
      map IssueWrapper_identity (issues L)
        = [GetIssueParameters ''octo'' ''repo'' 1, GetIssueParameters ''octo'' ''repo'' 2]) \<and>
   (\<exists>L. fst (IssueList_forUrls 1 example_env example_deps example_urls
                example_filtering_parameters) = Returned L \<and>
      map IssueWrapper_identity (issues L) = [GetIssueParameters ''octo'' ''repo'' 1]) \<and>
   fst (IssueList_forUrls 1 example_env example_deps [''not-a-url''] example_fetch_parameters)
     = Returned (new_IssueList []
         \<lparr>SourceOfTruth.title = ''Issues from URLs'', url = ''Multiple URLs'',
          groupKey = None\<rparr>)"
proof -
  note failing = forUrls_resolution
    [of 1 example_env example_deps "[''not-a-url'']" example_fetch_parameters]
  have "fst (IssueWrapper_forUrl 1 example_env example_deps ''not-a-url''
      example_fetch_parameters) = Thrown (UnsupportedHostname ''not-a-url'')"
    by code_simp
  then have fails: "\<forall>u \<in> set [''not-a-url''].
      \<exists>err. fst (IssueWrapper_forUrl 1 example_env example_deps u example_fetch_parameters)
        = Thrown err"
    by (simp del: One_nat_def)
  have uncommented: "\<not> 0 < comments example_fetch_parameters"
    by (simp add: example_fetch_parameters_def)
  from failing fails uncommented
  have empty: "fst (IssueList_forUrls 1 example_env example_deps [''not-a-url'']
      example_fetch_parameters)
     = Returned (new_IssueList []
         \<lparr>SourceOfTruth.title = ''Issues from URLs'', url = ''Multiple URLs'',
          groupKey = None\<rparr>)"
    by blast
  note accepting = forUrls_resolution
    [of 1 example_env example_deps example_urls example_fetch_parameters]
  note filtering = forUrls_resolution
    [of 1 example_env example_deps example_urls example_filtering_parameters]
  have ends: "resolutions_end 1 example_env example_deps example_urls example_fetch_parameters"
    by code_simp
  have entities: "resolved_entities 1 example_env example_deps example_urls
      example_fetch_parameters
    = [new_IssueWrapper (example_issue 1 ''Task''), new_IssueWrapper (example_issue 2 ''Task'')]"
    by code_simp
  have warnings: "url_warnings 1 example_env example_deps example_urls example_fetch_parameters
    = [Warning_Url ''not-a-url'' (UnsupportedHostname ''not-a-url'')]"
    by code_simp
  have commented: "fst (forUrls_commented 1 example_env example_deps example_urls
      example_fetch_parameters) = Returned ()"
    by code_simp
  have refetched: "fst (forUrls_refetched 1 example_env example_deps example_urls
      example_fetch_parameters) = Returned ()"
    by code_simp
  have accept: "\<forall>w. filter' example_fetch_parameters w"
    by (simp add: example_fetch_parameters_def)
  have ids:
    "IssueWrapper_identity (new_IssueWrapper (example_issue 1 ''Task''))
       = GetIssueParameters ''octo'' ''repo'' 1"
    "IssueWrapper_identity (new_IssueWrapper (example_issue 2 ''Task''))
       = GetIssueParameters ''octo'' ''repo'' 2"
    by code_simp+
  from accepting ends
  have "fst (IssueList_forUrls_loop 1 example_env example_deps example_urls
        example_fetch_parameters)
      = Returned (resolved_entities 1 example_env example_deps example_urls
          example_fetch_parameters) \<and>
    subseq (url_warnings 1 example_env example_deps example_urls example_fetch_parameters)
      (snd (IssueList_forUrls_loop 1 example_env example_deps example_urls
              example_fetch_parameters))"
    by blast
  then have loop: "fst (IssueList_forUrls_loop 1 example_env example_deps example_urls
        example_fetch_parameters)
      = Returned [new_IssueWrapper (example_issue 1 ''Task''),
                  new_IssueWrapper (example_issue 2 ''Task'')] \<and>
    subseq [Warning_Url ''not-a-url'' (UnsupportedHostname ''not-a-url'')]
      (snd (IssueList_forUrls_loop 1 example_env example_deps example_urls
              example_fetch_parameters))"
    by (simp add: entities warnings del: One_nat_def)
  from accepting ends commented refetched
  obtain L where run: "fst (IssueList_forUrls 1 example_env example_deps example_urls
      example_fetch_parameters) = Returned L"
    by blast
  with accepting accept
  have "sourceOfTruth L = \<lparr>SourceOfTruth.title = ''Issues from URLs'', url = ''Multiple URLs'',
                          groupKey = None\<rparr> \<and>
      map IssueWrapper_identity (issues L)
        = map IssueWrapper_identity (resolved_entities 1 example_env example_deps example_urls
            example_fetch_parameters)"
    by blast
  then have collection: "IssueList_title L = ''Issues from URLs'' \<and>
      map IssueWrapper_identity (issues L)
        = [GetIssueParameters ''octo'' ''repo'' 1, GetIssueParameters ''octo'' ''repo'' 2]"
    by (simp add: IssueList_title_def entities ids del: One_nat_def)
  have ends': "resolutions_end 1 example_env example_deps example_urls
      example_filtering_parameters"
    by code_simp
  have commented': "fst (forUrls_commented 1 example_env example_deps example_urls
      example_filtering_parameters) = Returned ()"
    by code_simp
  have refetched': "fst (forUrls_refetched 1 example_env example_deps example_urls
      example_filtering_parameters) = Returned ()"
    by code_simp
  have passing: "map IssueWrapper_identity (forUrls_passing 1 example_env example_deps
      example_urls example_filtering_parameters) = [GetIssueParameters ''octo'' ''repo'' 1]"
    by code_simp
  from filtering ends' commented' refetched'
  obtain L' where run': "fst (IssueList_forUrls 1 example_env example_deps example_urls
      example_filtering_parameters) = Returned L'"
    by blast
  with filtering
  have "map IssueWrapper_identity (issues L')
      = map IssueWrapper_identity (forUrls_passing 1 example_env example_deps
          example_urls example_filtering_parameters)"
    by blast
  then have collection': "map IssueWrapper_identity (issues L')
      = [GetIssueParameters ''octo'' ''repo'' 1]"
    by (simp add: passing del: One_nat_def)
  from run collection
  have accepted: "\<exists>L. fst (IssueList_forUrls 1 example_env example_deps example_urls
          example_fetch_parameters) = Returned L \<and>
      IssueList_title L = ''Issues from URLs'' \<and>
      map IssueWrapper_identity (issues L)
        = [GetIssueParameters ''octo'' ''repo'' 1, GetIssueParameters ''octo'' ''repo'' 2]"
    by (simp del: One_nat_def)
  from run' collection'
  have filtered: "\<exists>L. fst (IssueList_forUrls 1 example_env example_deps example_urls
                example_filtering_parameters) = Returned L \<and>
      map IssueWrapper_identity (issues L) = [GetIssueParameters ''octo'' ''repo'' 1]"
    by (simp del: One_nat_def)
  show ?thesis
    by (intro conjI)
       (rule ends loop [THEN conjunct1] loop [THEN conjunct2] accepted filtered empty)+
qed

text \<open>
  The claim as stated fails. Where every url fails, the collection that comes back is the
  empty collection titled \<open>Issues from URLs\<close>, which is not the null collection. Where the
  filter of the parameters rejects the entity of a url that resolved, the collection does
  not hold that entity. Where the batched comment call fails, \<open>forUrls\<close> throws, although
  the only failing resolution was logged as a warning.
\<close>

theorem forUrls_resolution_counterexample:
  "IssueList_forUrls 1 example_env example_deps [''not-a-url''] example_fetch_parameters =
     (Returned
        (IssueList
           \<lparr>SourceOfTruth.title = ''Issues from URLs'', url = ''Multiple URLs'', groupKey = None\<rparr>
           [] None None False False),
      [Warning_Url ''not-a-url'' (UnsupportedHostname ''not-a-url'')]) \<and>
   IssueList
     \<lparr>SourceOfTruth.title = ''Issues from URLs'', url = ''Multiple URLs'', groupKey = None\<rparr>
     [] None None False False \<noteq> IssueList_null \<and>
   IssueList_title IssueList_null = ''No Issues'' \<and>
   resolved_entities 1 example_env example_deps example_urls example_filtering_parameters
     = [new_IssueWrapper (example_issue 1 ''Task''), new_IssueWrapper (example_issue 2 ''Task'')] \<and>
   fst (IssueList_forUrls 1 example_env example_deps example_urls example_filtering_parameters)
     = Returned
        (IssueList
           \<lparr>SourceOfTruth.title = ''Issues from URLs'', url = ''Multiple URLs'', groupKey = None\<rparr>
           [new_IssueWrapper (example_issue 1 ''Task'')] None None False False) \<and>
   IssueList_forUrls 1 example_batch_failing_env example_deps [''not-a-url'']
       example_comment_parameters =
     (Thrown (RemoteFailure ''Bad Gateway''),
      [Warning_Url ''not-a-url'' (UnsupportedHostname ''not-a-url''),
       Call_listCommentsForListOfIssues [] 20])"
proof -
  have run: "IssueList_forUrls 1 example_env example_deps [''not-a-url'']
      example_fetch_parameters =
     (Returned
        (IssueList
           \<lparr>SourceOfTruth.title = ''Issues from URLs'', url = ''Multiple URLs'', groupKey = None\<rparr>
           [] None None False False),
      [Warning_Url ''not-a-url'' (UnsupportedHostname ''not-a-url'')])"
    by code_simp
  have resolved: "resolved_entities 1 example_env example_deps example_urls
      example_filtering_parameters
     = [new_IssueWrapper (example_issue 1 ''Task''), new_IssueWrapper (example_issue 2 ''Task'')]"
    by code_simp
  have filtered: "fst (IssueList_forUrls 1 example_env example_deps example_urls
      example_filtering_parameters)
     = Returned
        (IssueList
           \<lparr>SourceOfTruth.title = ''Issues from URLs'', url = ''Multiple URLs'', groupKey = None\<rparr>
           [new_IssueWrapper (example_issue 1 ''Task'')] None None False False)"
    by code_simp
  have thrown: "IssueList_forUrls 1 example_batch_failing_env example_deps [''not-a-url'']
       example_comment_parameters =
     (Thrown (RemoteFailure ''Bad Gateway''),
      [Warning_Url ''not-a-url'' (UnsupportedHostname ''not-a-url''),
       Call_listCommentsForListOfIssues [] 20])"
    by code_simp
  have null: "IssueList
     \<lparr>SourceOfTruth.title = ''Issues from URLs'', url = ''Multiple URLs'', groupKey = None\<rparr>
     [] None None False False \<noteq> IssueList_null \<and>
   IssueList_title IssueList_null = ''No Issues''"
    by (simp add: IssueList_null_def new_IssueList_def IssueList_title_def)
  show ?thesis
    by (intro conjI)
       (rule run null [THEN conjunct1] null [THEN conjunct2] resolved filtered thrown)+
qed

section \<open>Link-following\<close>

text \<open>The parameters handed on for the related issues keep \<open>followLinks\<close> as it is.\<close>

lemma followLinks_parameters_keep_followLinks:
  "followLinks (followLinks_parameters params) = followLinks params"
  by (simp add: followLinks_parameters_def)

lemma linking_comments:
  "fetch_comments_step example_linking_env example_linking_parameters
     (new_IssueWrapper (example_issue 1 ''Task'')) =
   (Returned (), example_linked_entity,
    [Call_listCommentsForIssue (GetIssueParameters ''octo'' ''repo'' 1) 20])"
  by code_simp

lemma linking_project: "IssueWrapper_projectNumber example_linked_entity = None"
  by code_simp

lemma linking_related: "IssueWrapper.relatedIssues example_linked_entity = None"
  by code_simp

lemma linking_update:
  "latestUpdate example_deps
     (issue (set_commentList (Some (IssueWrapper_comments example_linked_entity))
        example_linked_entity))
     (IssueWrapper_comments
        (set_commentList (Some (IssueWrapper_comments example_linked_entity))
           example_linked_entity))
   = Some (Comment ''Blocked by github.com/octo/repo/issues/1'')"
  by code_simp

lemma linking_text:
  "update example_deps (Comment ''Blocked by github.com/octo/repo/issues/1'')
     = ''Blocked by github.com/octo/repo/issues/1''"
  by code_simp

lemma linking_scrape:
  "scrapeUrls example_linking_env ''Blocked by github.com/octo/repo/issues/1''
     = Inr [''github.com/octo/repo/issues/1'']"
  by code_simp

lemma linking_match:
  "matchIssueUrl example_linking_env ''github.com/octo/repo/issues/1''
     = Inr (Some (IssueMatch ''octo'' ''repo'' (Some 1)))"
  by code_simp

lemma linking_getIssue:
  "getIssue example_linking_env (GetIssueParameters ''octo'' ''repo'' 1)
     = Inr (example_issue 1 ''Task'')"
  by code_simp

lemma linking_parameters:
  "followLinks_parameters example_linking_parameters = example_linking_parameters"
  "followLinks example_linking_parameters"
  "\<not> IssueFetchParameters.subissues example_linking_parameters"
  by (simp_all add: followLinks_parameters_def example_linking_parameters_def)

lemma linking_step:
  assumes "fst (rec example_linking_parameters (new_IssueWrapper (example_issue 1 ''Task'')))
     = OutOfFuel"
  shows "fst (fetch_body rec example_linking_env example_deps example_linking_parameters
     (new_IssueWrapper (example_issue 1 ''Task''))) = OutOfFuel"
proof -
  from assms obtain w' evs' where
    rec: "rec example_linking_parameters (new_IssueWrapper (example_issue 1 ''Task''))
      = (OutOfFuel, w', evs')"
    by (cases "rec example_linking_parameters (new_IssueWrapper (example_issue 1 ''Task''))") auto
  have url: "forUrl rec example_linking_env ''github.com/octo/repo/issues/1''
      example_linking_parameters = (OutOfFuel, Call_getIssue (GetIssueParameters ''octo'' ''repo'' 1) # evs')"
    by (simp add: forUrl_def linking_match forIssue_def linking_getIssue rec del: One_nat_def)
  have urls: "forUrls rec example_linking_env [''github.com/octo/repo/issues/1'']
      (followLinks_parameters example_linking_parameters)
      = (OutOfFuel, Call_getIssue (GetIssueParameters ''octo'' ''repo'' 1) # evs')"
    by (simp add: forUrls_def linking_parameters url del: One_nat_def)
  have links: "fst (IssueWrapper_followLinks rec example_linking_env example_deps
      example_linking_parameters example_linked_entity) = OutOfFuel"
    by (simp add: IssueWrapper_followLinks_def linking_related Let_def linking_update
          linking_text linking_scrape urls del: One_nat_def)
  from links obtain w2 evs2 where links': "IssueWrapper_followLinks rec example_linking_env
      example_deps example_linking_parameters example_linked_entity = (OutOfFuel, w2, evs2)"
    by (cases "IssueWrapper_followLinks rec example_linking_env
      example_deps example_linking_parameters example_linked_entity") auto
  show ?thesis
    by (simp add: fetch_body_def linking_comments and_then_def linking_project skip_def
          linking_parameters links' del: One_nat_def)
qed

lemma example_without_followLinks:
  "fst (IssueWrapper_fetch 1 example_linking_env example_deps
     (example_linking_parameters\<lparr>followLinks := False\<rparr>)
     (new_IssueWrapper (example_issue 1 ''Task''))) = Returned ()"
  by code_simp

text \<open>
  C1 fails on the code. The related issues are fetched with \<open>followLinks\<close> still set, so
  each of them follows the links of its own latest update. On an issue whose latest update
  links to the issue itself the fetch does not return: no amount of fuel is enough.
\<close>

theorem followLinks_unbounded:
  "fst (IssueWrapper_fetch n example_linking_env example_deps example_linking_parameters
     (new_IssueWrapper (example_issue 1 ''Task''))) = OutOfFuel \<and>
   followLinks (followLinks_parameters example_linking_parameters)"
proof
  show "fst (IssueWrapper_fetch n example_linking_env example_deps example_linking_parameters
     (new_IssueWrapper (example_issue 1 ''Task''))) = OutOfFuel"
  proof (induction n)
    case 0
    show ?case by simp
  next
    case (Suc n)
    then show ?case by (simp add: linking_step del: One_nat_def)
  qed
  show "followLinks (followLinks_parameters example_linking_parameters)"
    by (simp add: linking_parameters)
qed

section \<open>Sub-issues and related issues of an entity\<close>

text \<open>
  The two halves of C6 where they hold: without a (non-empty) latest update
  \<open>followLinks\<close> returns and the related issues stay absent; and a \<open>fetchSubissues\<close>
  that returns has attached a collection.
\<close>

lemma followLinks_without_update:
  assumes "IssueWrapper.relatedIssues w = None"
    and "latestUpdate d (issue w) (IssueWrapper_comments w) = None \<or>
         (\<exists>upd. latestUpdate d (issue w) (IssueWrapper_comments w) = Some upd \<and> update d upd = [])"
  shows "fst (IssueWrapper_followLinks rec e d params w) = Returned () \<and>
         IssueWrapper.relatedIssues (fst (snd (IssueWrapper_followLinks rec e d params w))) = None \<and>
         snd (snd (IssueWrapper_followLinks rec e d params w)) = []"
proof -
  have [simp]: "issue (set_commentList c w) = issue w" for c by (cases w) simp
  have [simp]: "IssueWrapper.relatedIssues (set_commentList c w) = IssueWrapper.relatedIssues w"
    for c by (cases w) simp
  have [simp]: "IssueWrapper_comments (set_commentList (Some (IssueWrapper_comments w)) w)
      = IssueWrapper_comments w"
    by (cases w) (simp add: IssueWrapper_comments_def)
  from assms show ?thesis
    by (auto simp: IssueWrapper_followLinks_def Let_def)
qed

lemma fetchSubissues_attaches:
  assumes "fst (IssueWrapper_fetchSubissues rec e d params w) = Returned ()"
  shows "IssueWrapper.subissues (fst (snd (IssueWrapper_fetchSubissues rec e d params w))) \<noteq> None"
proof -
  have [simp]: "IssueWrapper.subissues (set_subissues s w) = s" for s by (cases w) simp
  from assms show ?thesis
    by (auto simp: IssueWrapper_fetchSubissues_def
          split: sum.splits prod.splits outcome.splits if_splits)
qed

text \<open>
  C6 fails on the code where the sub-issue listing fails for an entity that has a project
  number: the null collection that stands in for the failed listing has no organization,
  fetching the project fields on it throws, and no collection is attached.
\<close>

theorem fetchSubissues_null_collection_throws:
  "IssueWrapper_fetchSubissues rec example_failing_env example_deps example_subissue_parameters
     example_project_entity =
   (Thrown NoCommonOrganizationAndProject, example_project_entity,
    [Call_listSubissuesForIssue (GetIssueParameters ''octo'' ''repo'' 1),
     Warning_Subissues (GetIssueParameters ''octo'' ''repo'' 1) (RemoteFailure ''Bad Gateway'')]) \<and>
   IssueWrapper.subissues example_project_entity = None"
proof -
  have v: "validateFetchParameters example_deps
      (example_subissue_parameters\<lparr>IssueFetchParameters.subissues := True\<rparr>)
      = Inr example_subissue_parameters"
    by (simp add: validateFetchParameters_def example_subissue_parameters_def example_deps_def)
  have i: "IssueWrapper_identity example_project_entity = GetIssueParameters ''octo'' ''repo'' 1"
    by code_simp
  have s: "forSubissues rec example_failing_env (GetIssueParameters ''octo'' ''repo'' 1)
      example_subissue_parameters =
    (Returned IssueList_null,
     [Call_listSubissuesForIssue (GetIssueParameters ''octo'' ''repo'' 1),
      Warning_Subissues (GetIssueParameters ''octo'' ''repo'' 1) (RemoteFailure ''Bad Gateway'')])"
    by (simp add: forSubissues_def example_failing_env_def example_env_def del: One_nat_def)
  have pn: "IssueWrapper_projectNumber example_project_entity = Some 1"
    by code_simp
  have f: "IssueList_fetchProjectFields example_failing_env (Some 1) IssueList_null
      = (Thrown NoCommonOrganizationAndProject, set_projectNumber (Some 1) IssueList_null, [])"
    by (simp add: IssueList_fetchProjectFields_def IssueList_null_def new_IssueList_def
          truthy_number_def del: One_nat_def)
  have n: "IssueWrapper.subissues example_project_entity = None"
    by (simp add: example_project_entity_def new_IssueWrapper_def)
  show ?thesis
    by (simp add: IssueWrapper_fetchSubissues_def v i s pn f n truthy_number_def del: One_nat_def)
qed


section \<open>Derived collections\<close>

text \<open>
  C5, as the code has it. The collections derived by \<open>copy()\<close> and by \<open>blame()\<close> are new
  collections: both fetch-state flags are \<open>False\<close> in them whatever the flags of the
  original are, and the organization and the project number are unset. \<open>copy()\<close> keeps the
  entities and the source of truth of the original. \<open>blame()\<close> keeps, in order, the
  entities that have no latest update under the given strategies, and the source of truth
  of the original with \<open> - Stale Updates\<close> appended to its title.
\<close>

theorem copy_blame_flags:
  "commentsFetched (copy l) = False \<and> projectFieldsFetched (copy l) = False \<and>
   commentsFetched (blame d b l) = False \<and> projectFieldsFetched (blame d b l) = False \<and>
   organization (copy l) = None \<and> projectNumber (copy l) = None \<and>
   organization (blame d b l) = None \<and> projectNumber (blame d b l) = None \<and>
   issues (copy l) = issues l \<and> sourceOfTruth (copy l) = sourceOfTruth l \<and>
   issues (blame d b l)
     = filter (\<lambda>w. latestUpdates d (issue w) (IssueWrapper_comments w) 1 b = []) (issues l) \<and>
   sourceOfTruth (blame d b l)
     = (sourceOfTruth l)\<lparr>SourceOfTruth.title :=
          SourceOfTruth.title (sourceOfTruth l) @ '' - Stale Updates''\<rparr>"
  by (simp add: blame_def copy_def new_IssueList_def Let_def IssueList_filter_def)

text \<open>
  The claim as stated fails: the flags of a collection whose comments and project fields
  were fetched are not inherited by its copy, nor by its blame view.
\<close>

theorem copy_blame_flags_counterexample:
  "commentsFetched example_fetched_list \<and> projectFieldsFetched example_fetched_list \<and>
   commentsFetched (copy example_fetched_list) \<noteq> commentsFetched example_fetched_list \<and>
   projectFieldsFetched (blame example_deps None example_fetched_list)
     \<noteq> projectFieldsFetched example_fetched_list"
  by (simp add: example_fetched_list_def example_list_def blame_def copy_def new_IssueList_def
        Let_def)

end
